theory Spec2Isabelle
  imports Main "HOL-Library.Word"
begin

section \<open>The sponsor endpoint of Octane (packages/server/pages/api/sponsor.ts)\<close>

text \<open>
  The handler receives a base58 wire transaction, decodes it, takes a short-lived lock on
  the digest of its message, validates it (one chain for the legacy format, one for v0),
  co-signs it as fee payer, simulates it and then either submits it or returns the
  signature. Everything the handler calls outside its own file (the web3.js codec and RPC
  connection, bs58, the core helpers, the cache) is a field of an environment record or a
  definition marked as modelled from the specification. The handler's own control flow is
  translated statement by statement.
\<close>

subsection \<open>Data\<close>

type_synonym byte = "8 word"
type_synonym bytes = "byte list"
type_synonym pubkey = bytes

text \<open>A thrown JavaScript value: an \<open>Error\<close> with its message, or anything else.\<close>

datatype thrown = Error string | NonError

text \<open>\<open>versionedTransaction.version\<close> is \<open>'legacy'\<close> or \<open>0\<close>.\<close>

datatype version = Legacy | V0

record message =
  version :: version
  numRequiredSignatures :: nat
  staticAccountKeys :: "pubkey list"
  recentBlockhash :: string

record versioned_transaction =
  message :: message
  signatures :: "bytes list"

text \<open>
  The legacy \<open>Transaction\<close> object of web3.js: \<open>feePayer\<close> and \<open>recentBlockhash\<close> may be
  undefined, and every entry of \<open>signatures\<close> pairs a public key with a signature that is
  a buffer or \<open>null\<close>.
\<close>

record SignaturePubkeyPair =
  signature :: "bytes option"
  publicKey :: "pubkey option"

record legacy_transaction =
  feePayer :: "pubkey option"
  legacy_recentBlockhash :: "string option"
  legacy_signatures :: "SignaturePubkeyPair list"

text \<open>
  \<open>config.json\<close>: \<open>returnSignature\<close> is \<open>null\<close> (here \<open>None\<close>) or one of the two
  variants; the number of the second variant is its configured minimum score.
\<close>

datatype ReturnSignatureConfigField = AllowAll | ScoredChallenge nat

record config =
  maxSignatures :: int
  returnSignature :: "ReturnSignatureConfigField option"

text \<open>The field \<open>request.body?.transaction\<close>: a string, or anything else (also absent).\<close>

datatype js_value = JSString string | JSOther

record request =
  body_transaction :: js_value
  challenge_token :: "string option"

text \<open>
  What \<open>response.status(code).send(object)\<close> sends: the status code and the fields of the
  object literal, in the order written. A handler that throws sends nothing itself.
\<close>

type_synonym json_object = "(string \<times> string) list"

datatype response = Response nat json_object

datatype outcome = Responded response | Unhandled thrown

text \<open>The JSON text of \<open>simulation.value.err\<close> when it is not \<open>null\<close>.\<close>

type_synonym transaction_error = string

text \<open>
  What is handed to the dry-run: the transaction object (v0, line 200) or the serialized
  bytes (legacy, line 109).
\<close>

datatype simulated = SimulatedTransaction versioned_transaction | SimulatedRaw bytes

text \<open>
  The calls a request makes outside the handler, in the order made. A flag tells whether
  the call returned (\<open>True\<close>) or threw; a simulation records what was dry-run and what
  it reported; a submission records the bytes sent.
\<close>

datatype event =
    CacheGet string
  | CacheSet string
  | IsBlockhashValid string
  | ValidateInstructions bool
  | Sign bool
  | Serialize bool
  | Simulate simulated "thrown + transaction_error option"
  | AntiSpamQuery bool
  | Submit bytes bool

subsection \<open>External collaborators\<close>

text \<open>
  The libraries and services the handler calls: bs58, the codec and the RPC connection of
  web3.js, the instruction check of the core package, the scoring collaborator. Each
  fallible call returns the thrown value on the left. \<open>typeErrorMessage\<close> is the message
  of the TypeError raised when the named operation meets \<open>undefined\<close> or \<open>null\<close>: the
  property reads \<open>equals\<close> and \<open>every\<close>, and \<open>base58.encode\<close>. The two middlewares
  \<open>cors\<close> and \<open>rateLimit\<close> of lines 21-22 run before everything modelled here.
\<close>

record env =
  ENV_SECRET_KEYPAIR_publicKey :: pubkey
  base58_decode :: "string \<Rightarrow> thrown + bytes"
  base58_encode :: "bytes \<Rightarrow> string"
  sha256 :: "bytes \<Rightarrow> bytes"
  deserialize :: "bytes \<Rightarrow> thrown + versioned_transaction"
  serialize_message :: "message \<Rightarrow> bytes"
  transaction_from :: "bytes \<Rightarrow> thrown + legacy_transaction"
  isBlockhashValid :: "string \<Rightarrow> thrown + bool"
  validateInstructions :: "legacy_transaction \<Rightarrow> thrown + unit"
  partialSign :: "legacy_transaction \<Rightarrow> thrown + legacy_transaction"
  serialize_legacy :: "legacy_transaction \<Rightarrow> thrown + bytes"
  sign :: "versioned_transaction \<Rightarrow> thrown + versioned_transaction"
  serialize_versioned :: "versioned_transaction \<Rightarrow> thrown + bytes"
  simulateTransaction :: "versioned_transaction \<Rightarrow> thrown + transaction_error option"
  simulateRaw :: "bytes \<Rightarrow> thrown + transaction_error option"
  sendAndConfirmRawTransaction :: "bytes \<Rightarrow> thrown + string"
  scoreCheck :: "request \<Rightarrow> nat \<Rightarrow> thrown + bool"
  typeErrorMessage :: "string \<Rightarrow> string"

subsection \<open>The duplicate suppression cache\<close>

text \<open>
  Modelled from the spec: the \<open>cache\<close> object of packages/server/src is not among the
  sources. Section 3 of the specification describes a duplicate lock entry as keyed by the
  digest, holding a presence marker, and living for a short fixed window after which it
  expires; section 4.2 has no growth bound that matters here. An entry records the time it
  was set and is present while less than \<open>ttl\<close> has passed since.
\<close>

record cache =
  ttl :: nat
  entries :: "string \<Rightarrow> nat option"

definition cache_get :: "cache \<Rightarrow> nat \<Rightarrow> string \<Rightarrow> bool" where
  "cache_get c now k =
     (case entries c k of None \<Rightarrow> False | Some t0 \<Rightarrow> now < t0 + ttl c)"

definition cache_set :: "cache \<Rightarrow> nat \<Rightarrow> string \<Rightarrow> cache" where
  "cache_set c now k = c\<lparr>entries := (entries c)(k \<mapsto> now)\<rparr>"

subsection \<open>Sequencing calls that may throw\<close>

text \<open>
  A computation yields the thrown value or its result, and the events it performed. A
  throw ends the computation and keeps the events performed so far.
\<close>

type_synonym 'a io = "(thrown + 'a) \<times> event list"

definition io_return :: "'a \<Rightarrow> 'a io" where
  "io_return x = (Inr x, [])"

definition io_throw :: "string \<Rightarrow> 'a io" where
  "io_throw m = (Inl (Error m), [])"

definition io_lift :: "thrown + 'a \<Rightarrow> 'a io" where
  "io_lift r = (r, [])"

definition io_call :: "event \<Rightarrow> thrown + 'a \<Rightarrow> 'a io" where
  "io_call ev r = (r, [ev])"

definition io_bind :: "'a io \<Rightarrow> ('a \<Rightarrow> 'b io) \<Rightarrow> 'b io" where
  "io_bind m f =
     (case m of
        (Inl e, t) \<Rightarrow> (Inl e, t)
      | (Inr x, t) \<Rightarrow> (case f x of (r, u) \<Rightarrow> (r, t @ u)))"

definition returned :: "thrown + 'a \<Rightarrow> bool" where
  "returned r = (case r of Inl _ \<Rightarrow> False | Inr _ \<Rightarrow> True)"

subsection \<open>Responses\<close>

definition error_response :: "string \<Rightarrow> response" where
  "error_response m = Response 400 [(''status'', ''error''), (''message'', m)]"

definition ok_response :: "string \<Rightarrow> response" where
  "ok_response s = Response 200 [(''status'', ''ok''), (''signature'', s)]"

subsection \<open>Signature slot checks\<close>

text \<open>\<open>sig.every(byte => byte === 0)\<close>\<close>

definition every_zero :: "bytes \<Rightarrow> bool" where
  "every_zero sig = list_all (\<lambda>byte. byte = 0) sig"

text \<open>
  Legacy, lines 90-91: a secondary slot counts as unsigned when its signature is \<open>null\<close>
  or all zero.
\<close>

definition legacy_unsigned :: "SignaturePubkeyPair \<Rightarrow> bool" where
  "legacy_unsigned sig =
     (case signature sig of None \<Rightarrow> True | Some s \<Rightarrow> every_zero s)"

text \<open>Legacy, lines 95-98: the loop over the secondary slots of a partially signed transaction.\<close>

fun legacy_check_present :: "SignaturePubkeyPair list \<Rightarrow> thrown + unit" where
  "legacy_check_present [] = Inr ()"
| "legacy_check_present (sig # rest) =
     (if publicKey sig = None then Inl (Error ''missing public key'')
      else if signature sig = None then Inl (Error ''missing signature'')
      else legacy_check_present rest)"

text \<open>
  Legacy, lines 73-99. \<open>primary.publicKey.equals\<close> on an undefined public key is a
  TypeError of the engine; a buffer is truthy whatever its content.
\<close>

definition check_signatures_legacy ::
  "env \<Rightarrow> config \<Rightarrow> legacy_transaction \<Rightarrow> thrown + unit" where
  "check_signatures_legacy e cfg tx =
     (case legacy_signatures tx of
        [] \<Rightarrow> Inl (Error ''no signatures'')
      | primary # secondary \<Rightarrow>
          if int (length (legacy_signatures tx)) > maxSignatures cfg
          then Inl (Error ''too many signatures'')
          else (case publicKey primary of
                  None \<Rightarrow> Inl (Error (typeErrorMessage e ''equals''))
                | Some pk \<Rightarrow>
                    if pk \<noteq> ENV_SECRET_KEYPAIR_publicKey e
                    then Inl (Error ''invalid fee payer pubkey'')
                    else if signature primary \<noteq> None
                    then Inl (Error ''invalid fee payer signature'')
                    else if list_all legacy_unsigned secondary then Inr ()
                    else legacy_check_present secondary))"

text \<open>v0, lines 185-191: the loop over the slots from index 1.\<close>

fun v0_check_present :: "bytes list \<Rightarrow> thrown + unit" where
  "v0_check_present [] = Inr ()"
| "v0_check_present (sig # rest) =
     (if every_zero sig then Inl (Error ''missing required signature'')
      else v0_check_present rest)"

text \<open>
  v0, lines 155-193. \<open>firstSig.every\<close> is evaluated before the count is compared with 1,
  and is a TypeError of the engine when there is no slot at all.
\<close>

definition check_signatures_v0 ::
  "env \<Rightarrow> config \<Rightarrow> versioned_transaction \<Rightarrow> thrown + unit" where
  "check_signatures_v0 e cfg vtx =
     (if int (numRequiredSignatures (message vtx)) > maxSignatures cfg
      then Inl (Error ''too many signatures'')
      else if length (signatures vtx) \<noteq> numRequiredSignatures (message vtx)
      then Inl (Error ''signature count mismatch'')
      else (case signatures vtx of
              [] \<Rightarrow> Inl (Error (typeErrorMessage e ''every''))
            | firstSig # others \<Rightarrow>
                if numRequiredSignatures (message vtx) = 1 then Inr ()
                else if \<not> every_zero firstSig
                then Inl (Error ''invalid fee payer signature'')
                else if list_all every_zero others then Inr ()
                else v0_check_present others))"

subsection \<open>Simulation and dispatch\<close>

text \<open>
  Modelled from the spec: \<open>simulateRawTransaction\<close> of the core package is not among the
  sources. Section 4.4 of the specification: the signed transaction is dry-run, and a
  reported error aborts the request with \<open>simulation failed: <details>\<close>.
\<close>

definition simulateRawTransaction :: "env \<Rightarrow> bytes \<Rightarrow> unit io" where
  "simulateRawTransaction e rawTransaction =
     io_bind (io_call (Simulate (SimulatedRaw rawTransaction) (simulateRaw e rawTransaction))
                (simulateRaw e rawTransaction))
       (\<lambda>err. case err of
                 Some d \<Rightarrow> io_throw (''simulation failed: '' @ d)
               | None \<Rightarrow> io_return ())"

text \<open>v0, lines 199-204.\<close>

definition simulate_v0 :: "env \<Rightarrow> versioned_transaction \<Rightarrow> unit io" where
  "simulate_v0 e vtx =
     io_bind (io_call (Simulate (SimulatedTransaction vtx) (simulateTransaction e vtx))
                (simulateTransaction e vtx))
       (\<lambda>err. case err of
                 Some d \<Rightarrow> io_throw (''simulation failed: '' @ d)
               | None \<Rightarrow> io_return ())"

text \<open>
  Modelled from the spec: \<open>isReturnedSignatureAllowed\<close> of packages/server/src is not
  among the sources. Sections 3 and 4.5 of the specification: \<open>allowAll\<close> has no further
  gate; the scored challenge is delegated to an external scoring collaborator with the
  configured minimum score.
\<close>

definition isReturnedSignatureAllowed ::
  "env \<Rightarrow> request \<Rightarrow> ReturnSignatureConfigField \<Rightarrow> bool io" where
  "isReturnedSignatureAllowed e req field =
     (case field of
        AllowAll \<Rightarrow> io_return True
      | ScoredChallenge minScore \<Rightarrow>
          io_call (AntiSpamQuery (returned (scoreCheck e req minScore)))
            (scoreCheck e req minScore))"

text \<open>Lines 113-131 and, with the same text, lines 208-226.\<close>

definition dispatch :: "env \<Rightarrow> config \<Rightarrow> request \<Rightarrow> bytes \<Rightarrow> string \<Rightarrow> response io" where
  "dispatch e cfg req rawTransaction sig =
     (case returnSignature cfg of
        Some field \<Rightarrow>
          io_bind (isReturnedSignatureAllowed e req field)
            (\<lambda>allowed. if \<not> allowed
                        then io_return (error_response ''anti-spam check failed'')
                        else io_return (ok_response sig))
      | None \<Rightarrow>
          io_bind (io_call (Submit rawTransaction
                              (returned (sendAndConfirmRawTransaction e rawTransaction)))
                     (sendAndConfirmRawTransaction e rawTransaction))
            (\<lambda>_. io_return (ok_response sig)))"

text \<open>\<open>base58.encode\<close> of a signature that may be \<open>null\<close> or \<open>undefined\<close>.\<close>

definition encode_signature :: "env \<Rightarrow> bytes option \<Rightarrow> string io" where
  "encode_signature e s =
     (case s of
        None \<Rightarrow> io_throw (typeErrorMessage e ''encode'')
      | Some b \<Rightarrow> io_return (base58_encode e b))"

text \<open>The getter \<open>legacyTx.signature\<close>: the signature of the first slot, or \<open>null\<close>.\<close>

definition legacy_signature :: "legacy_transaction \<Rightarrow> bytes option" where
  "legacy_signature tx =
     (case legacy_signatures tx of [] \<Rightarrow> None | p # _ \<Rightarrow> signature p)"

subsection \<open>The two validation chains\<close>

text \<open>Lines 101-131: the instruction policy hook, co-signing, simulation and dispatch.\<close>

definition cosign_legacy ::
  "env \<Rightarrow> config \<Rightarrow> request \<Rightarrow> legacy_transaction \<Rightarrow> response io" where
  "cosign_legacy e cfg req legacyTx =
     io_bind (io_call (ValidateInstructions (returned (validateInstructions e legacyTx)))
                (validateInstructions e legacyTx)) (\<lambda>_.
     io_bind (io_call (Sign (returned (partialSign e legacyTx)))
                (partialSign e legacyTx)) (\<lambda>signedTx.
     io_bind (io_call (Serialize (returned (serialize_legacy e signedTx)))
                (serialize_legacy e signedTx)) (\<lambda>rawTransaction.
     io_bind (simulateRawTransaction e rawTransaction) (\<lambda>_.
     io_bind (encode_signature e (legacy_signature signedTx)) (\<lambda>sig.
     dispatch e cfg req rawTransaction sig)))))"

text \<open>Lines 55-131.\<close>

definition sponsor_legacy :: "env \<Rightarrow> config \<Rightarrow> request \<Rightarrow> bytes \<Rightarrow> response io" where
  "sponsor_legacy e cfg req buffer =
     io_bind (io_lift (transaction_from e buffer)) (\<lambda>legacyTx.
       if feePayer legacyTx \<noteq> Some (ENV_SECRET_KEYPAIR_publicKey e)
       then io_throw ''invalid fee payer''
       else (case legacy_recentBlockhash legacyTx of
               None \<Rightarrow> io_throw ''missing recent blockhash''
             | Some blockhash \<Rightarrow>
                 if blockhash = [] then io_throw ''missing recent blockhash''
                 else
       io_bind (io_call (IsBlockhashValid blockhash) (isBlockhashValid e blockhash)) (\<lambda>isValid.
       if \<not> isValid then io_throw ''blockhash not found or expired''
       else
       io_bind (io_lift (check_signatures_legacy e cfg legacyTx)) (\<lambda>_.
       cosign_legacy e cfg req legacyTx))))"

text \<open>\<open>versionedTransaction.signatures[0]\<close>, undefined when there is no slot.\<close>

definition versioned_signature :: "versioned_transaction \<Rightarrow> bytes option" where
  "versioned_signature tx = (case signatures tx of [] \<Rightarrow> None | s # _ \<Rightarrow> Some s)"

text \<open>Lines 195-226: co-signing, simulation and dispatch.\<close>

definition cosign_v0 ::
  "env \<Rightarrow> config \<Rightarrow> request \<Rightarrow> versioned_transaction \<Rightarrow> response io" where
  "cosign_v0 e cfg req vtx =
     io_bind (io_call (Sign (returned (sign e vtx))) (sign e vtx)) (\<lambda>signedTx.
     io_bind (io_call (Serialize (returned (serialize_versioned e signedTx)))
                (serialize_versioned e signedTx)) (\<lambda>rawTransaction.
     io_bind (simulate_v0 e signedTx) (\<lambda>_.
     io_bind (encode_signature e (versioned_signature signedTx)) (\<lambda>sig.
     dispatch e cfg req rawTransaction sig))))"

text \<open>Lines 135-226. \<open>feePayer.equals\<close> is a TypeError when the message has no account key.\<close>

definition sponsor_v0 ::
  "env \<Rightarrow> config \<Rightarrow> request \<Rightarrow> versioned_transaction \<Rightarrow> response io" where
  "sponsor_v0 e cfg req vtx =
     (case staticAccountKeys (message vtx) of
        [] \<Rightarrow> io_throw (typeErrorMessage e ''equals'')
      | feePayerKey # _ \<Rightarrow>
          if feePayerKey \<noteq> ENV_SECRET_KEYPAIR_publicKey e
          then io_throw ''invalid fee payer''
          else if recentBlockhash (message vtx) = []
          then io_throw ''missing recent blockhash''
          else
       io_bind (io_call (IsBlockhashValid (recentBlockhash (message vtx)))
                  (isBlockhashValid e (recentBlockhash (message vtx)))) (\<lambda>isValid.
       if \<not> isValid then io_throw ''blockhash not found or expired''
       else
       io_bind (io_lift (check_signatures_v0 e cfg vtx)) (\<lambda>_.
       cosign_v0 e cfg req vtx)))"

subsection \<open>The handler\<close>

text \<open>Line 46: the key of the duplicate lock.\<close>

definition cache_key :: "env \<Rightarrow> message \<Rightarrow> string" where
  "cache_key e m = ''transaction/'' @ base58_encode e (sha256 e (serialize_message e m))"

text \<open>
  Lines 43-227, the body of the second \<open>try\<close>: the result and events of the body, and the
  cache it leaves. \<open>now\<close> is the time at which the request consults the cache.
\<close>

definition sponsor_try ::
  "env \<Rightarrow> config \<Rightarrow> nat \<Rightarrow> cache \<Rightarrow> request \<Rightarrow> bytes \<Rightarrow> versioned_transaction
     \<Rightarrow> response io \<times> cache" where
  "sponsor_try e cfg now c req buffer vtx =
     (let key = cache_key e (message vtx) in
      if cache_get c now key
      then (io_bind (io_call (CacheGet key) (Inr ())) (\<lambda>_. io_throw ''duplicate transaction''), c)
      else (io_bind (io_call (CacheGet key) (Inr ())) (\<lambda>_.
            io_bind (io_call (CacheSet key) (Inr ())) (\<lambda>_.
              if version (message vtx) = Legacy
              then sponsor_legacy e cfg req buffer
              else sponsor_v0 e cfg req vtx)),
            cache_set c now key))"

text \<open>Lines 229-232: the message the \<open>catch\<close> reports.\<close>

definition catch_message :: "thrown \<Rightarrow> string" where
  "catch_message ex = (case ex of Error msg \<Rightarrow> msg | NonError \<Rightarrow> [])"

text \<open>Lines 228-234, the \<open>catch\<close>.\<close>

definition catch_all :: "response io \<Rightarrow> outcome \<times> event list" where
  "catch_all m =
     (case m of
        (Inr r, t) \<Rightarrow> (Responded r, t)
      | (Inl ex, t) \<Rightarrow> (Responded (error_response (catch_message ex)), t))"

text \<open>
  The handler after the two middlewares (lines 24-235): the outcome, the events and the
  cache afterwards. \<open>base58.decode\<close> stands outside both \<open>try\<close> blocks, so what it throws
  leaves the handler.
\<close>

definition sponsor ::
  "env \<Rightarrow> config \<Rightarrow> nat \<Rightarrow> cache \<Rightarrow> request \<Rightarrow> (outcome \<times> event list) \<times> cache" where
  "sponsor e cfg now c req =
     (case body_transaction req of
        JSOther \<Rightarrow>
          ((Responded (error_response ''request should contain transaction''), []), c)
      | JSString serialized \<Rightarrow>
          (case base58_decode e serialized of
             Inl ex \<Rightarrow> ((Unhandled ex, []), c)
           | Inr buffer \<Rightarrow>
               (case deserialize e buffer of
                  Inl ex \<Rightarrow>
                    ((Responded (error_response
                        (case ex of Error msg \<Rightarrow> msg | NonError \<Rightarrow> ''can't decode transaction'')),
                      []), c)
                | Inr vtx \<Rightarrow>
                    (case sponsor_try e cfg now c req buffer vtx of
                       (m, c') \<Rightarrow> (catch_all m, c')))))"

subsection \<open>The handler in two steps\<close>

text \<open>
  The handler awaits \<open>cache.get\<close> (line 47) and \<open>cache.set\<close> (line 50) one after the
  other, with no check-and-set, so steps of other requests can fall between the two. The
  first step is the handler up to the answer of \<open>cache.get\<close>: the request is finished
  (no transaction, a decoding failure, a duplicate) or has passed the lookup. The second
  step is the rest, from \<open>cache.set\<close> on, run on the cache as it is by then; its events
  are those of the whole request, the lookup included.
\<close>

datatype lookup_result = Finished outcome "event list" | Passed bytes versioned_transaction

definition sponsor_lookup :: "env \<Rightarrow> nat \<Rightarrow> cache \<Rightarrow> request \<Rightarrow> lookup_result" where
  "sponsor_lookup e now c req =
     (case body_transaction req of
        JSOther \<Rightarrow>
          Finished (Responded (error_response ''request should contain transaction'')) []
      | JSString serialized \<Rightarrow>
          (case base58_decode e serialized of
             Inl ex \<Rightarrow> Finished (Unhandled ex) []
           | Inr buffer \<Rightarrow>
               (case deserialize e buffer of
                  Inl ex \<Rightarrow>
                    Finished (Responded (error_response
                        (case ex of Error msg \<Rightarrow> msg | NonError \<Rightarrow> ''can't decode transaction'')))
                      []
                | Inr vtx \<Rightarrow>
                    if cache_get c now (cache_key e (message vtx))
                    then Finished (Responded (error_response ''duplicate transaction''))
                           [CacheGet (cache_key e (message vtx))]
                    else Passed buffer vtx)))"

definition sponsor_resume ::
  "env \<Rightarrow> config \<Rightarrow> nat \<Rightarrow> cache \<Rightarrow> request \<Rightarrow> bytes \<Rightarrow> versioned_transaction
     \<Rightarrow> (outcome \<times> event list) \<times> cache" where
  "sponsor_resume e cfg now c req buffer vtx =
     (let key = cache_key e (message vtx) in
      (catch_all
         (io_bind (io_call (CacheGet key) (Inr ())) (\<lambda>_.
          io_bind (io_call (CacheSet key) (Inr ())) (\<lambda>_.
            if version (message vtx) = Legacy
            then sponsor_legacy e cfg req buffer
            else sponsor_v0 e cfg req vtx))),
       cache_set c now key))"

subsection \<open>Notions used to state the properties\<close>

text \<open>The request decodes: both decoding steps of lines 25-41 succeed.\<close>

definition decoded :: "env \<Rightarrow> request \<Rightarrow> (bytes \<times> versioned_transaction) option" where
  "decoded e req =
     (case body_transaction req of
        JSOther \<Rightarrow> None
      | JSString serialized \<Rightarrow>
          (case base58_decode e serialized of
             Inl _ \<Rightarrow> None
           | Inr buffer \<Rightarrow>
               (case deserialize e buffer of
                  Inl _ \<Rightarrow> None
                | Inr vtx \<Rightarrow> Some (buffer, vtx))))"

text \<open>
  The decoded transaction does not name the service as fee payer: the legacy \<open>feePayer\<close>
  (which web3.js fills from account key 0) is another key or undefined, or the first
  static account key of a v0 message is another key.
\<close>

definition foreign_fee_payer :: "env \<Rightarrow> bytes \<Rightarrow> versioned_transaction \<Rightarrow> bool" where
  "foreign_fee_payer e buffer vtx =
     (case version (message vtx) of
        Legacy \<Rightarrow>
          (case transaction_from e buffer of
             Inl _ \<Rightarrow> False
           | Inr legacyTx \<Rightarrow> feePayer legacyTx \<noteq> Some (ENV_SECRET_KEYPAIR_publicKey e))
      | V0 \<Rightarrow>
          (case staticAccountKeys (message vtx) of
             [] \<Rightarrow> False
           | k # _ \<Rightarrow> k \<noteq> ENV_SECRET_KEYPAIR_publicKey e))"

text \<open>
  A legacy request that arrives at the signature checks of line 73: it decodes, is no
  duplicate, names the service as fee payer and carries a blockhash the ledger accepts.
\<close>

definition legacy_at_signature_checks ::
  "env \<Rightarrow> nat \<Rightarrow> cache \<Rightarrow> request \<Rightarrow> (versioned_transaction \<times> legacy_transaction) option" where
  "legacy_at_signature_checks e now c req =
     (case decoded e req of
        None \<Rightarrow> None
      | Some (buffer, vtx) \<Rightarrow>
          if cache_get c now (cache_key e (message vtx)) \<or> version (message vtx) \<noteq> Legacy
          then None
          else (case transaction_from e buffer of
                  Inl _ \<Rightarrow> None
                | Inr legacyTx \<Rightarrow>
                    if feePayer legacyTx \<noteq> Some (ENV_SECRET_KEYPAIR_publicKey e) then None
                    else (case legacy_recentBlockhash legacyTx of
                            None \<Rightarrow> None
                          | Some blockhash \<Rightarrow>
                              if blockhash \<noteq> [] \<and> isBlockhashValid e blockhash = Inr True
                              then Some (vtx, legacyTx) else None)))"

text \<open>The blockhash a legacy transaction carries (empty when it carries none).\<close>

definition legacy_blockhash :: "legacy_transaction \<Rightarrow> string" where
  "legacy_blockhash legacyTx =
     (case legacy_recentBlockhash legacyTx of None \<Rightarrow> [] | Some blockhash \<Rightarrow> blockhash)"

text \<open>The same for a v0 request and the signature checks of line 155.\<close>

definition v0_at_signature_checks ::
  "env \<Rightarrow> nat \<Rightarrow> cache \<Rightarrow> request \<Rightarrow> versioned_transaction option" where
  "v0_at_signature_checks e now c req =
     (case decoded e req of
        None \<Rightarrow> None
      | Some (buffer, vtx) \<Rightarrow>
          if cache_get c now (cache_key e (message vtx)) \<or> version (message vtx) \<noteq> V0
          then None
          else (case staticAccountKeys (message vtx) of
                  [] \<Rightarrow> None
                | k # _ \<Rightarrow>
                    if k = ENV_SECRET_KEYPAIR_publicKey e
                       \<and> recentBlockhash (message vtx) \<noteq> []
                       \<and> isBlockhashValid e (recentBlockhash (message vtx)) = Inr True
                    then Some vtx else None))"

text \<open>
  The answer that carries the identifier of a signature: the base58 text of the signature,
  or the TypeError of \<open>base58.encode\<close> when there is none.
\<close>

definition signature_outcome :: "env \<Rightarrow> bytes option \<Rightarrow> outcome" where
  "signature_outcome e s =
     (case s of
        None \<Rightarrow> Responded (error_response (typeErrorMessage e ''encode''))
      | Some b \<Rightarrow> Responded (ok_response (base58_encode e b)))"

text \<open>What the dry-run of a simulated object reports.\<close>

definition simulation_result :: "env \<Rightarrow> simulated \<Rightarrow> thrown + transaction_error option" where
  "simulation_result e x =
     (case x of
        SimulatedTransaction tx \<Rightarrow> simulateTransaction e tx
      | SimulatedRaw raw \<Rightarrow> simulateRaw e raw)"

text \<open>
  The co-signed transaction of a request: what the service's signing of the validated
  transaction yields, as the object handed to the dry-run together with its serialized
  bytes. There is none when signing or serializing throws.
\<close>

definition cosigned_v0 :: "env \<Rightarrow> versioned_transaction \<Rightarrow> (simulated \<times> bytes) option" where
  "cosigned_v0 e vtx =
     (case sign e vtx of
        Inl _ \<Rightarrow> None
      | Inr signedTx \<Rightarrow>
          (case serialize_versioned e signedTx of
             Inl _ \<Rightarrow> None
           | Inr rawTransaction \<Rightarrow> Some (SimulatedTransaction signedTx, rawTransaction)))"

definition cosigned_legacy :: "env \<Rightarrow> legacy_transaction \<Rightarrow> (simulated \<times> bytes) option" where
  "cosigned_legacy e legacyTx =
     (case partialSign e legacyTx of
        Inl _ \<Rightarrow> None
      | Inr signedTx \<Rightarrow>
          (case serialize_legacy e signedTx of
             Inl _ \<Rightarrow> None
           | Inr rawTransaction \<Rightarrow> Some (SimulatedRaw rawTransaction, rawTransaction)))"

definition cosigned :: "env \<Rightarrow> bytes \<Rightarrow> versioned_transaction \<Rightarrow> (simulated \<times> bytes) option" where
  "cosigned e buffer vtx =
     (case version (message vtx) of
        V0 \<Rightarrow> cosigned_v0 e vtx
      | Legacy \<Rightarrow>
          (case transaction_from e buffer of
             Inl _ \<Rightarrow> None
           | Inr legacyTx \<Rightarrow> cosigned_legacy e legacyTx))"

text \<open>
  What a validation chain guarantees about simulation, in terms of its result, its events
  and the co-signed transaction: whatever is dry-run is the co-signed transaction;
  whatever is submitted is the serialized co-signed transaction, after a dry-run of it that
  reported no error; a serialized transaction is dry-run; and a reported error is thrown
  as \<open>simulation failed\<close> with nothing submitted.
\<close>

definition simulation_guards ::
  "env \<Rightarrow> (simulated \<times> bytes) option \<Rightarrow> response io \<Rightarrow> bool" where
  "simulation_guards e art m =
     ((\<forall>x r. Simulate x r \<in> set (snd m) \<longrightarrow>
           (\<exists>raw. art = Some (x, raw)) \<and> r = simulation_result e x)
      \<and> (\<forall>raw b. Submit raw b \<in> set (snd m) \<longrightarrow>
           (\<exists>x. art = Some (x, raw)
              \<and> Simulate x (Inr None) \<in> set (takeWhile (\<lambda>ev. ev \<noteq> Submit raw b) (snd m))))
      \<and> (Serialize True \<in> set (snd m) \<longrightarrow>
           (\<exists>x raw. art = Some (x, raw) \<and> Simulate x (simulation_result e x) \<in> set (snd m)))
      \<and> (\<forall>x d. Simulate x (Inr (Some d)) \<in> set (snd m) \<longrightarrow>
            fst m = Inl (Error (''simulation failed: '' @ d))
            \<and> (\<forall>raw b. Submit raw b \<notin> set (snd m))))"

text \<open>An answer of one of the two shapes the handler writes.\<close>

definition two_fields :: "response \<Rightarrow> bool" where
  "two_fields r = ((\<exists>sig. r = ok_response sig) \<or> (\<exists>msg. r = error_response msg))"

text \<open>The events of a request before its signature checks.\<close>

definition admission_events :: "env \<Rightarrow> message \<Rightarrow> string \<Rightarrow> event list" where
  "admission_events e m blockhash =
     [CacheGet (cache_key e m), CacheSet (cache_key e m), IsBlockhashValid blockhash]"

text \<open>
  The second steps of a list of requests, taken one after another, each at its own time:
  the cache they leave. First steps leave the cache as it is, so any interleaving of
  requests acts on the cache as the list of its second steps does.
\<close>

fun resume_all ::
  "cache \<Rightarrow> (env \<times> config \<times> nat \<times> request \<times> bytes \<times> versioned_transaction) list \<Rightarrow> cache" where
  "resume_all c [] = c"
| "resume_all c ((e, cfg, now, req, buffer, vtx) # rest) =
     resume_all (snd (sponsor_resume e cfg now c req buffer vtx)) rest"

subsection \<open>Sample data\<close>

text \<open>
  A sample environment in which every decoding yields the two given views of one
  transaction and every service answers favourably. The codec functions are small total
  stand-ins; the service's key is \<open>[1]\<close>, its signature sixty-four nines.
\<close>

definition null_signature :: bytes where
  "null_signature = replicate 64 0"

definition user_signature :: bytes where
  "user_signature = replicate 64 7"

definition service_signature :: bytes where
  "service_signature = replicate 64 9"

text \<open>The JSON text of the simulation error \<open>AccountNotFound\<close>, with its quotes.\<close>

definition account_not_found :: transaction_error where
  "account_not_found = CHR 0x22 # ''AccountNotFound'' @ [CHR 0x22]"

definition sample_env :: "versioned_transaction \<Rightarrow> legacy_transaction \<Rightarrow> env" where
  "sample_env vtx legacyTx = \<lparr>
     ENV_SECRET_KEYPAIR_publicKey = [1],
     base58_decode = (\<lambda>s. if s = ''0'' then Inl (Error ''Non-base58 character'') else Inr [3]),
     base58_encode = (\<lambda>b. replicate (length b) CHR ''z''),
     sha256 = (\<lambda>b. b),
     deserialize = (\<lambda>b. Inr vtx),
     serialize_message = (\<lambda>m. concat (staticAccountKeys m)),
     transaction_from = (\<lambda>b. Inr legacyTx),
     isBlockhashValid = (\<lambda>h. Inr True),
     validateInstructions = (\<lambda>t. Inr ()),
     partialSign = (\<lambda>t. Inr (t\<lparr>legacy_signatures :=
        (case legacy_signatures t of
           [] \<Rightarrow> []
         | p # rest \<Rightarrow> p\<lparr>signature := Some service_signature\<rparr> # rest)\<rparr>)),
     serialize_legacy = (\<lambda>t. Inr [5, 5]),
     sign = (\<lambda>t. Inr (t\<lparr>signatures := service_signature # tl (signatures t)\<rparr>)),
     serialize_versioned = (\<lambda>t. Inr [5, 5]),
     simulateTransaction = (\<lambda>t. Inr None),
     simulateRaw = (\<lambda>b. Inr None),
     sendAndConfirmRawTransaction = (\<lambda>b. Inr ''zz''),
     scoreCheck = (\<lambda>r n. Inr True),
     typeErrorMessage = (\<lambda>p. ''Cannot read properties of undefined'')
   \<rparr>"

definition sample_message :: "version \<Rightarrow> nat \<Rightarrow> pubkey \<Rightarrow> message" where
  "sample_message v n k =
     \<lparr>version = v, numRequiredSignatures = n, staticAccountKeys = [k, [2], [4]],
      recentBlockhash = ''hash''\<rparr>"

definition sample_v0 :: "nat \<Rightarrow> pubkey \<Rightarrow> bytes list \<Rightarrow> versioned_transaction" where
  "sample_v0 n k sigs = \<lparr>message = sample_message V0 n k, signatures = sigs\<rparr>"

definition sample_wire_legacy :: "pubkey \<Rightarrow> bytes list \<Rightarrow> versioned_transaction" where
  "sample_wire_legacy k sigs =
     \<lparr>message = sample_message Legacy (length sigs) k, signatures = sigs\<rparr>"

definition sample_legacy :: "pubkey \<Rightarrow> SignaturePubkeyPair list \<Rightarrow> legacy_transaction" where
  "sample_legacy k sigs =
     \<lparr>feePayer = Some k, legacy_recentBlockhash = Some ''hash'', legacy_signatures = sigs\<rparr>"

definition no_legacy :: legacy_transaction where
  "no_legacy = \<lparr>feePayer = None, legacy_recentBlockhash = None, legacy_signatures = []\<rparr>"

definition sample_request :: request where
  "sample_request = \<lparr>body_transaction = JSString ''3Bxs'', challenge_token = None\<rparr>"

definition sample_config :: "int \<Rightarrow> ReturnSignatureConfigField option \<Rightarrow> config" where
  "sample_config n r = \<lparr>maxSignatures = n, returnSignature = r\<rparr>"

definition empty_cache :: cache where
  "empty_cache = \<lparr>ttl = 5, entries = (\<lambda>k. None)\<rparr>"

section \<open>Properties\<close>

subsection \<open>Sequencing and decoding\<close>

lemma io_bind_return: "io_bind (io_return x) f = f x"
  by (simp add: io_bind_def io_return_def split: prod.splits)

lemma io_bind_throw: "io_bind (io_throw m) f = io_throw m"
  by (simp add: io_bind_def io_throw_def)

lemma io_bind_lift: "io_bind (io_lift r) f = (case r of Inl ex \<Rightarrow> (Inl ex, []) | Inr x \<Rightarrow> f x)"
  by (simp add: io_bind_def io_lift_def split: prod.splits sum.splits)

lemma io_bind_call:
  "io_bind (io_call ev r) f =
     (case r of Inl ex \<Rightarrow> (Inl ex, [ev]) | Inr x \<Rightarrow> (fst (f x), ev # snd (f x)))"
  by (simp add: io_bind_def io_call_def split: prod.splits sum.splits)

lemmas io_simps = io_bind_return io_bind_throw io_bind_lift io_bind_call

lemma sponsor_decoded:
  "decoded e req = Some (buffer, vtx) \<Longrightarrow>
   sponsor e cfg now c req =
     (catch_all (fst (sponsor_try e cfg now c req buffer vtx)),
      snd (sponsor_try e cfg now c req buffer vtx))"
  by (auto simp: decoded_def sponsor_def split: js_value.splits sum.splits prod.splits)

lemma sponsor_duplicate:
  assumes "decoded e req = Some (buffer, vtx)"
    and "cache_get c now (cache_key e (message vtx))"
  shows "sponsor e cfg now c req =
     ((Responded (error_response ''duplicate transaction''), [CacheGet (cache_key e (message vtx))]), c)"
  using assms
  by (simp add: sponsor_decoded sponsor_try_def Let_def io_simps catch_all_def catch_message_def io_throw_def)



lemma sponsor_cache_cases:
  "snd (sponsor e cfg now c req) = c \<or> (\<exists>k. snd (sponsor e cfg now c req) = cache_set c now k)"
  by (auto simp: sponsor_def sponsor_try_def Let_def split: js_value.splits sum.splits prod.splits)

lemmas sample_defs = account_not_found_def sample_env_def sample_message_def sample_v0_def sample_wire_legacy_def
  sample_legacy_def no_legacy_def sample_request_def sample_config_def empty_cache_def
  null_signature_def user_signature_def service_signature_def

lemmas handler_defs = sponsor_def sponsor_try_def sponsor_legacy_def sponsor_v0_def
  cosign_legacy_def cosign_v0_def catch_message_def versioned_signature_def
  check_signatures_legacy_def check_signatures_v0_def dispatch_def simulate_v0_def
  simulateRawTransaction_def isReturnedSignatureAllowed_def encode_signature_def
  legacy_signature_def catch_all_def cache_key_def cache_get_def cache_set_def
  io_bind_def io_call_def io_lift_def io_return_def io_throw_def returned_def
  error_response_def ok_response_def every_zero_def legacy_unsigned_def decoded_def Let_def


subsection \<open>The duplicate lock\<close>

lemma cache_key_cong:
  assumes "serialize_message e2 m2 = serialize_message e1 m1"
    and "sha256 e2 = sha256 e1" and "base58_encode e2 = base58_encode e1"
  shows "cache_key e2 m2 = cache_key e1 m1"
  using assms by (simp add: cache_key_def)

lemma cache_get_after_set:
  "cache_get (cache_set c t0 k) now k = (now < t0 + ttl c)"
  by (simp add: cache_get_def cache_set_def)

lemma sponsor_ttl: "ttl (snd (sponsor e cfg now c req)) = ttl c"
  using sponsor_cache_cases [of e cfg now c req] by (auto simp: cache_set_def)



subsection \<open>The stages of a request\<close>

lemma catch_all_simps:
  "catch_all (Inr r, t) = (Responded r, t)"
  "catch_all (Inl ex, t) = (Responded (error_response (catch_message ex)), t)"
  by (simp_all add: catch_all_def)

lemma fst_catch_all_prepend:
  "catch_all (fst m, t @ snd m) = (fst (catch_all m), t @ snd (catch_all m))"
  by (cases m) (auto simp: catch_all_def split: sum.splits)

lemma sponsor_v0_stage:
  assumes "v0_at_signature_checks e now c req = Some vtx"
  shows "fst (sponsor e cfg now c req) =
     (case check_signatures_v0 e cfg vtx of
        Inl ex \<Rightarrow> (Responded (error_response (catch_message ex)),
                   admission_events e (message vtx) (recentBlockhash (message vtx)))
      | Inr _ \<Rightarrow> (fst (catch_all (cosign_v0 e cfg req vtx)),
                  admission_events e (message vtx) (recentBlockhash (message vtx))
                    @ snd (cosign_v0 e cfg req vtx)))"
proof -
  from assms obtain buffer where d: "decoded e req = Some (buffer, vtx)"
    by (auto simp: v0_at_signature_checks_def split: option.splits if_splits list.splits)
  from assms d show ?thesis
    by (cases "cosign_v0 e cfg req vtx")
       (auto simp: v0_at_signature_checks_def sponsor_decoded [OF d] sponsor_try_def Let_def
          sponsor_v0_def io_simps catch_all_def io_throw_def admission_events_def
          split: option.splits if_splits list.splits sum.splits version.splits)
qed

lemma sponsor_legacy_stage:
  assumes "legacy_at_signature_checks e now c req = Some (vtx, legacyTx)"
  shows "fst (sponsor e cfg now c req) =
     (case check_signatures_legacy e cfg legacyTx of
        Inl ex \<Rightarrow> (Responded (error_response (catch_message ex)),
                   admission_events e (message vtx) (legacy_blockhash legacyTx))
      | Inr _ \<Rightarrow> (fst (catch_all (cosign_legacy e cfg req legacyTx)),
                  admission_events e (message vtx) (legacy_blockhash legacyTx)
                    @ snd (cosign_legacy e cfg req legacyTx)))"
proof -
  from assms obtain buffer where d: "decoded e req = Some (buffer, vtx)"
    by (auto simp: legacy_at_signature_checks_def split: option.splits if_splits sum.splits)
  from assms d show ?thesis
    by (cases "cosign_legacy e cfg req legacyTx")
       (auto simp: legacy_at_signature_checks_def sponsor_decoded [OF d] sponsor_try_def Let_def
          sponsor_legacy_def io_simps catch_all_def io_throw_def admission_events_def
          legacy_blockhash_def
          split: option.splits if_splits list.splits sum.splits version.splits)
qed

text \<open>What the signature checks accept.\<close>

lemma v0_check_present_mixed:
  "\<exists>s \<in> set sigs. every_zero s \<Longrightarrow> v0_check_present sigs = Inl (Error ''missing required signature'')"
  by (induction sigs) auto

lemma v0_check_present_full:
  "\<forall>s \<in> set sigs. \<not> every_zero s \<Longrightarrow> v0_check_present sigs = Inr ()"
  by (induction sigs) auto

lemma check_signatures_v0_accepts:
  "check_signatures_v0 e cfg vtx = Inr () \<Longrightarrow>
     1 \<le> numRequiredSignatures (message vtx)
     \<and> int (numRequiredSignatures (message vtx)) \<le> maxSignatures cfg
     \<and> length (signatures vtx) = numRequiredSignatures (message vtx)"
  by (auto simp: check_signatures_v0_def split: if_splits list.splits)

lemma check_signatures_legacy_accepts:
  "check_signatures_legacy e cfg legacyTx = Inr () \<Longrightarrow>
     1 \<le> length (legacy_signatures legacyTx)
     \<and> int (length (legacy_signatures legacyTx)) \<le> maxSignatures cfg"
  by (auto simp: check_signatures_legacy_def split: if_splits list.splits option.splits)

lemma legacy_check_present_missing:
  "\<exists>s \<in> set sigs. signature s = None \<Longrightarrow>
   legacy_check_present sigs = Inl (Error ''missing public key'')
   \<or> legacy_check_present sigs = Inl (Error ''missing signature'')"
  by (induction sigs) auto

lemma legacy_check_present_missing_keyed:
  "\<exists>s \<in> set sigs. signature s = None \<Longrightarrow> \<forall>s \<in> set sigs. publicKey s \<noteq> None \<Longrightarrow>
   legacy_check_present sigs = Inl (Error ''missing signature'')"
  by (induction sigs) auto

lemma legacy_check_present_full:
  "\<forall>s \<in> set sigs. signature s \<noteq> None \<and> publicKey s \<noteq> None \<Longrightarrow> legacy_check_present sigs = Inr ()"
  by (induction sigs) auto

text \<open>Where signing happens.\<close>

lemma cosign_v0_events:
  "\<exists>rest. snd (cosign_v0 e cfg req vtx) = Sign (returned (sign e vtx)) # rest"
  by (auto simp: cosign_v0_def io_simps split: sum.splits)

lemma cosign_legacy_events:
  "\<exists>rest. snd (cosign_legacy e cfg req legacyTx) =
      ValidateInstructions (returned (validateInstructions e legacyTx)) # rest"
  by (auto simp: cosign_legacy_def io_simps split: sum.splits)

lemma sponsor_v0_sign:
  "Sign b \<in> set (snd (sponsor_v0 e cfg req vtx)) \<Longrightarrow> check_signatures_v0 e cfg vtx = Inr ()"
  by (auto simp: sponsor_v0_def io_simps io_throw_def split: list.splits if_splits sum.splits)

lemma sponsor_legacy_sign:
  "Sign b \<in> set (snd (sponsor_legacy e cfg req buffer)) \<Longrightarrow>
   \<exists>legacyTx. transaction_from e buffer = Inr legacyTx \<and> check_signatures_legacy e cfg legacyTx = Inr ()"
  by (auto simp: sponsor_legacy_def io_simps io_throw_def split: list.splits if_splits sum.splits option.splits)

lemma sponsor_undecoded_events:
  "decoded e req = None \<Longrightarrow> snd (fst (sponsor e cfg now c req)) = []"
  by (auto simp: sponsor_def decoded_def split: js_value.splits sum.splits)

lemma snd_catch_all: "snd (catch_all m) = snd m"
  by (cases m) (auto simp: catch_all_def split: sum.splits)

lemma sponsor_events:
  assumes "decoded e req = Some (buffer, vtx)"
  shows "snd (fst (sponsor e cfg now c req)) =
     (if cache_get c now (cache_key e (message vtx)) then [CacheGet (cache_key e (message vtx))]
      else CacheGet (cache_key e (message vtx)) # CacheSet (cache_key e (message vtx)) #
        (if version (message vtx) = Legacy then snd (sponsor_legacy e cfg req buffer)
         else snd (sponsor_v0 e cfg req vtx)))"
  by (simp add: sponsor_decoded [OF assms] sponsor_try_def Let_def snd_catch_all io_simps io_throw_def)

subsection \<open>Fee payer identity\<close>

lemma sponsor_legacy_foreign:
  assumes "transaction_from e buffer = Inr legacyTx"
    and "feePayer legacyTx \<noteq> Some (ENV_SECRET_KEYPAIR_publicKey e)"
  shows "sponsor_legacy e cfg req buffer = (Inl (Error ''invalid fee payer''), [])"
  using assms by (simp add: sponsor_legacy_def io_simps io_throw_def)

lemma sponsor_v0_foreign:
  assumes "staticAccountKeys (message vtx) = k # ks"
    and "k \<noteq> ENV_SECRET_KEYPAIR_publicKey e"
  shows "sponsor_v0 e cfg req vtx = (Inl (Error ''invalid fee payer''), [])"
  using assms by (simp add: sponsor_v0_def io_simps io_throw_def)

lemma foreign_fee_payer_throws:
  assumes "foreign_fee_payer e buffer vtx"
  shows "(if version (message vtx) = Legacy then sponsor_legacy e cfg req buffer
          else sponsor_v0 e cfg req vtx) = (Inl (Error ''invalid fee payer''), [])"
  using assms
  by (auto simp: foreign_fee_payer_def sponsor_legacy_foreign sponsor_v0_foreign
        split: version.splits sum.splits list.splits)

text \<open>
  C1, as amended: a decoded transaction that does not name the service as fee payer (the
  legacy \<open>feePayer\<close>, or account key 0 of a v0 message) never gets past the cache: the
  request performs no call other than the cache lookup and the cache set, so no signing,
  no simulation and no submission; and when it is not turned away as a duplicate it is
  rejected with \<open>invalid fee payer\<close>. Both formats.
\<close>

theorem foreign_fee_payer_rejected:
  assumes "decoded e req = Some (buffer, vtx)"
    and "foreign_fee_payer e buffer vtx"
  shows "set (snd (fst (sponsor e cfg now c req)))
           \<subseteq> {CacheGet (cache_key e (message vtx)), CacheSet (cache_key e (message vtx))}
       \<and> (\<not> cache_get c now (cache_key e (message vtx)) \<longrightarrow>
            fst (sponsor e cfg now c req) =
              (Responded (error_response ''invalid fee payer''),
               [CacheGet (cache_key e (message vtx)), CacheSet (cache_key e (message vtx))]))"
proof -
  let ?k = "cache_key e (message vtx)"
  let ?m = "if version (message vtx) = Legacy then sponsor_legacy e cfg req buffer
            else sponsor_v0 e cfg req vtx"
  have m: "?m = (Inl (Error ''invalid fee payer''), [])"
    using assms(2) by (rule foreign_fee_payer_throws)
  have ev: "snd (fst (sponsor e cfg now c req)) =
      (if cache_get c now ?k then [CacheGet ?k] else [CacheGet ?k, CacheSet ?k])"
    using m by (simp add: sponsor_events [OF assms(1)] split: if_splits)
  have out: "fst (fst (sponsor e cfg now c req)) = Responded (error_response ''invalid fee payer'')"
    if "\<not> cache_get c now ?k"
    using that m
    by (simp add: sponsor_decoded [OF assms(1)] sponsor_try_def Let_def io_simps catch_all_def
          catch_message_def split: if_splits)
  from ev out show ?thesis by (auto simp: prod_eq_iff)
qed

theorem foreign_fee_payer_rejected_witness:
  "decoded (sample_env (sample_v0 1 [2] [null_signature]) no_legacy) sample_request
     = Some ([3], sample_v0 1 [2] [null_signature])
   \<and> foreign_fee_payer (sample_env (sample_v0 1 [2] [null_signature]) no_legacy) [3]
       (sample_v0 1 [2] [null_signature])
   \<and> \<not> cache_get empty_cache 10 ''transaction/zzz''
   \<and> fst (sponsor (sample_env (sample_v0 1 [2] [null_signature]) no_legacy) (sample_config 2 None) 10
        empty_cache sample_request) =
       (Responded (error_response ''invalid fee payer''),
        [CacheGet ''transaction/zzz'', CacheSet ''transaction/zzz''])
   \<and> decoded (sample_env (sample_wire_legacy [2] [null_signature])
          (sample_legacy [2] [\<lparr>signature = None, publicKey = Some [2]\<rparr>])) sample_request
     = Some ([3], sample_wire_legacy [2] [null_signature])
   \<and> foreign_fee_payer (sample_env (sample_wire_legacy [2] [null_signature])
          (sample_legacy [2] [\<lparr>signature = None, publicKey = Some [2]\<rparr>])) [3]
       (sample_wire_legacy [2] [null_signature])
   \<and> fst (sponsor (sample_env (sample_wire_legacy [2] [null_signature])
          (sample_legacy [2] [\<lparr>signature = None, publicKey = Some [2]\<rparr>])) (sample_config 2 None) 10
        empty_cache sample_request) =
       (Responded (error_response ''invalid fee payer''),
        [CacheGet ''transaction/zzz'', CacheSet ''transaction/zzz''])"
proof -
  let ?v = "sample_v0 1 [2] [null_signature]"
  let ?e = "sample_env ?v no_legacy"
  let ?w = "sample_wire_legacy [2] [null_signature]"
  let ?l = "sample_legacy [2] [\<lparr>signature = None, publicKey = Some [2]\<rparr>]"
  let ?f = "sample_env ?w ?l"
  have d: "decoded ?e sample_request = Some ([3], ?v)"
    by (simp add: decoded_def sample_defs)
  have f: "foreign_fee_payer ?e [3] ?v"
    by (simp add: foreign_fee_payer_def sample_defs)
  have k: "cache_key ?e (message ?v) = ''transaction/zzz''"
    by (simp add: cache_key_def sample_defs)
  have d': "decoded ?f sample_request = Some ([3], ?w)"
    by (simp add: decoded_def sample_defs)
  have f': "foreign_fee_payer ?f [3] ?w"
    by (simp add: foreign_fee_payer_def sample_defs)
  have k': "cache_key ?f (message ?w) = ''transaction/zzz''"
    by (simp add: cache_key_def sample_defs)
  have m: "\<not> cache_get empty_cache 10 ''transaction/zzz''"
    by (simp add: cache_get_def sample_defs)
  from foreign_fee_payer_rejected [OF d f, of "sample_config 2 None" 10 empty_cache] m
  have a: "fst (sponsor ?e (sample_config 2 None) 10 empty_cache sample_request) =
       (Responded (error_response ''invalid fee payer''),
        [CacheGet ''transaction/zzz'', CacheSet ''transaction/zzz''])"
    by (simp only: k simp_thms)
  from foreign_fee_payer_rejected [OF d' f', of "sample_config 2 None" 10 empty_cache] m
  have b: "fst (sponsor ?f (sample_config 2 None) 10 empty_cache sample_request) =
       (Responded (error_response ''invalid fee payer''),
        [CacheGet ''transaction/zzz'', CacheSet ''transaction/zzz''])"
    by (simp only: k' simp_thms)
  from d f m a d' f' b show ?thesis by blast
qed

text \<open>
  C1 as stated fails for a duplicate: the lock is consulted before the fee payer, so a v0
  transaction whose account key 0 is not the service's key, resubmitted two time units
  after the lock was set, is answered \<open>duplicate transaction\<close>.
\<close>

theorem invalid_fee_payer_counterexample:
  "deserialize (sample_env (sample_v0 1 [2] [null_signature]) no_legacy) [3]
     = Inr (sample_v0 1 [2] [null_signature])
   \<and> staticAccountKeys (message (sample_v0 1 [2] [null_signature])) ! 0
       \<noteq> ENV_SECRET_KEYPAIR_publicKey (sample_env (sample_v0 1 [2] [null_signature]) no_legacy)
   \<and> fst (sponsor (sample_env (sample_v0 1 [2] [null_signature]) no_legacy) (sample_config 2 None) 12
        (cache_set empty_cache 10 ''transaction/zzz'') sample_request) =
       (Responded (error_response ''duplicate transaction''), [CacheGet ''transaction/zzz''])
   \<and> error_response ''duplicate transaction'' \<noteq> error_response ''invalid fee payer''"
  by (simp add: sample_defs handler_defs)

subsection \<open>Signature slots\<close>

lemma sponsor_v0_rejects:
  assumes "v0_at_signature_checks e now c req = Some vtx"
    and "check_signatures_v0 e cfg vtx = Inl (Error msg)"
  shows "fst (sponsor e cfg now c req) =
     (Responded (error_response msg),
      admission_events e (message vtx) (recentBlockhash (message vtx)))"
  using assms(2) by (simp add: sponsor_v0_stage [OF assms(1)] catch_message_def)

lemma sponsor_v0_accepts:
  assumes "v0_at_signature_checks e now c req = Some vtx"
    and "check_signatures_v0 e cfg vtx = Inr ()"
  shows "\<exists>rest. snd (fst (sponsor e cfg now c req)) =
     admission_events e (message vtx) (recentBlockhash (message vtx))
       @ Sign (returned (sign e vtx)) # rest"
  using assms(2) cosign_v0_events [of e cfg req vtx]
  by (auto simp add: sponsor_v0_stage [OF assms(1)])

lemma sponsor_legacy_rejects:
  assumes "legacy_at_signature_checks e now c req = Some (vtx, legacyTx)"
    and "check_signatures_legacy e cfg legacyTx = Inl (Error msg)"
  shows "fst (sponsor e cfg now c req) =
     (Responded (error_response msg),
      admission_events e (message vtx) (legacy_blockhash legacyTx))"
  using assms(2) by (simp add: sponsor_legacy_stage [OF assms(1)] catch_message_def)

lemma sponsor_legacy_accepts:
  assumes "legacy_at_signature_checks e now c req = Some (vtx, legacyTx)"
    and "check_signatures_legacy e cfg legacyTx = Inr ()"
  shows "\<exists>rest. snd (fst (sponsor e cfg now c req)) =
     admission_events e (message vtx) (legacy_blockhash legacyTx)
       @ ValidateInstructions (returned (validateInstructions e legacyTx)) # rest"
  using assms(2) cosign_legacy_events [of e cfg req legacyTx]
  by (auto simp add: sponsor_legacy_stage [OF assms(1)])

lemma list_all_replicate: "list_all P (replicate n x) = (n = 0 \<or> P x)"
  by (induction n) auto

lemmas stage_defs = list_all_replicate v0_at_signature_checks_def legacy_at_signature_checks_def decoded_def
  cache_get_def cache_key_def admission_events_def legacy_blockhash_def returned_def

text \<open>
  C4, as amended: among the requests that arrive at the signature checks with a count
  within the bound (and, for v0, as many slots as the header declares), a v0 transaction
  with a single required signature goes on to be signed
  by the service whatever its slot 0 holds, and a v0 transaction with another count whose
  slot 0 is not all zero is rejected with \<open>invalid fee payer signature\<close>; a legacy
  transaction whose first slot is keyed to the service and holds a signature is rejected
  with \<open>invalid fee payer signature\<close> whatever the number of its slots. A rejection here
  follows the cache lookup, the cache set and the blockhash query, and nothing else.
\<close>

theorem fee_payer_slot_rule:
  "(v0_at_signature_checks e now c req = Some vtx
      \<and> int (numRequiredSignatures (message vtx)) \<le> maxSignatures cfg
      \<and> length (signatures vtx) = numRequiredSignatures (message vtx)
      \<and> signatures vtx = firstSig # others \<longrightarrow>
      (numRequiredSignatures (message vtx) = 1 \<longrightarrow>
         (\<exists>rest. snd (fst (sponsor e cfg now c req)) =
            admission_events e (message vtx) (recentBlockhash (message vtx))
              @ Sign (returned (sign e vtx)) # rest))
      \<and> (numRequiredSignatures (message vtx) \<noteq> 1 \<and> \<not> every_zero firstSig \<longrightarrow>
         fst (sponsor e cfg now c req) =
           (Responded (error_response ''invalid fee payer signature''),
            admission_events e (message vtx) (recentBlockhash (message vtx)))))
   \<and> (legacy_at_signature_checks e now c req = Some (wire, legacyTx)
      \<and> legacy_signatures legacyTx = primary # secondary
      \<and> int (length (legacy_signatures legacyTx)) \<le> maxSignatures cfg
      \<and> publicKey primary = Some (ENV_SECRET_KEYPAIR_publicKey e)
      \<and> signature primary \<noteq> None \<longrightarrow>
      fst (sponsor e cfg now c req) =
        (Responded (error_response ''invalid fee payer signature''),
         admission_events e (message wire) (legacy_blockhash legacyTx)))"
proof -
  have single: "\<exists>rest. snd (fst (sponsor e cfg now c req)) =
            admission_events e (message vtx) (recentBlockhash (message vtx))
              @ Sign (returned (sign e vtx)) # rest"
    if "v0_at_signature_checks e now c req = Some vtx"
      and "int (numRequiredSignatures (message vtx)) \<le> maxSignatures cfg"
      and "length (signatures vtx) = numRequiredSignatures (message vtx)"
      and "signatures vtx = firstSig # others"
      and "numRequiredSignatures (message vtx) = 1"
  proof -
    from that(2-5) have "check_signatures_v0 e cfg vtx = Inr ()"
      by (simp add: check_signatures_v0_def)
    with that(1) show ?thesis by (rule sponsor_v0_accepts)
  qed
  have multi: "fst (sponsor e cfg now c req) =
           (Responded (error_response ''invalid fee payer signature''),
            admission_events e (message vtx) (recentBlockhash (message vtx)))"
    if "v0_at_signature_checks e now c req = Some vtx"
      and "int (numRequiredSignatures (message vtx)) \<le> maxSignatures cfg"
      and "length (signatures vtx) = numRequiredSignatures (message vtx)"
      and "signatures vtx = firstSig # others"
      and "numRequiredSignatures (message vtx) \<noteq> 1" and "\<not> every_zero firstSig"
  proof -
    from that(2-6)
    have "check_signatures_v0 e cfg vtx = Inl (Error ''invalid fee payer signature'')"
      by (simp add: check_signatures_v0_def)
    with that(1) show ?thesis by (rule sponsor_v0_rejects)
  qed
  have legacy: "fst (sponsor e cfg now c req) =
        (Responded (error_response ''invalid fee payer signature''),
         admission_events e (message wire) (legacy_blockhash legacyTx))"
    if "legacy_at_signature_checks e now c req = Some (wire, legacyTx)"
      and "legacy_signatures legacyTx = primary # secondary"
      and "int (length (legacy_signatures legacyTx)) \<le> maxSignatures cfg"
      and "publicKey primary = Some (ENV_SECRET_KEYPAIR_publicKey e)"
      and "signature primary \<noteq> None"
  proof -
    from that(2-5)
    have "check_signatures_legacy e cfg legacyTx = Inl (Error ''invalid fee payer signature'')"
      by (simp add: check_signatures_legacy_def)
    with that(1) show ?thesis by (rule sponsor_legacy_rejects)
  qed
  from single multi legacy show ?thesis by blast
qed

theorem fee_payer_slot_rule_witness:
  "v0_at_signature_checks (sample_env (sample_v0 1 [1] [user_signature]) no_legacy) 10 empty_cache
      sample_request = Some (sample_v0 1 [1] [user_signature])
   \<and> \<not> every_zero user_signature
   \<and> (\<exists>rest. snd (fst (sponsor (sample_env (sample_v0 1 [1] [user_signature]) no_legacy)
          (sample_config 2 None) 10 empty_cache sample_request)) =
        [CacheGet ''transaction/zzz'', CacheSet ''transaction/zzz'', IsBlockhashValid ''hash'']
          @ Sign True # rest)
   \<and> v0_at_signature_checks (sample_env (sample_v0 2 [1] [user_signature, user_signature]) no_legacy)
        10 empty_cache sample_request = Some (sample_v0 2 [1] [user_signature, user_signature])
   \<and> fst (sponsor (sample_env (sample_v0 2 [1] [user_signature, user_signature]) no_legacy)
          (sample_config 2 None) 10 empty_cache sample_request) =
        (Responded (error_response ''invalid fee payer signature''),
         [CacheGet ''transaction/zzz'', CacheSet ''transaction/zzz'', IsBlockhashValid ''hash''])
   \<and> legacy_at_signature_checks
        (sample_env (sample_wire_legacy [1] [user_signature, user_signature])
           (sample_legacy [1] [\<lparr>signature = Some user_signature, publicKey = Some [1]\<rparr>,
                               \<lparr>signature = Some user_signature, publicKey = Some [2]\<rparr>]))
        10 empty_cache sample_request =
        Some (sample_wire_legacy [1] [user_signature, user_signature],
              sample_legacy [1] [\<lparr>signature = Some user_signature, publicKey = Some [1]\<rparr>,
                                 \<lparr>signature = Some user_signature, publicKey = Some [2]\<rparr>])
   \<and> fst (sponsor
        (sample_env (sample_wire_legacy [1] [user_signature, user_signature])
           (sample_legacy [1] [\<lparr>signature = Some user_signature, publicKey = Some [1]\<rparr>,
                               \<lparr>signature = Some user_signature, publicKey = Some [2]\<rparr>]))
        (sample_config 2 None) 10 empty_cache sample_request) =
        (Responded (error_response ''invalid fee payer signature''),
         [CacheGet ''transaction/zzz'', CacheSet ''transaction/zzz'', IsBlockhashValid ''hash''])"
proof -
  let ?cfg = "sample_config 2 None"
  let ?v1 = "sample_v0 1 [1] [user_signature]"
  let ?e1 = "sample_env ?v1 no_legacy"
  let ?v2 = "sample_v0 2 [1] [user_signature, user_signature]"
  let ?e2 = "sample_env ?v2 no_legacy"
  let ?w = "sample_wire_legacy [1] [user_signature, user_signature]"
  let ?p = "\<lparr>signature = Some user_signature, publicKey = Some [1]\<rparr>"
  let ?q = "\<lparr>signature = Some user_signature, publicKey = Some [2]\<rparr>"
  let ?l = "sample_legacy [1] [?p, ?q]"
  let ?e3 = "sample_env ?w ?l"
  let ?adm = "[CacheGet ''transaction/zzz'', CacheSet ''transaction/zzz'', IsBlockhashValid ''hash'']"
  have nz: "\<not> every_zero user_signature"
    by (simp add: every_zero_def user_signature_def list_all_replicate)
  have at1: "v0_at_signature_checks ?e1 10 empty_cache sample_request = Some ?v1"
    by (simp add: stage_defs sample_defs)
  have h1: "int (numRequiredSignatures (message ?v1)) \<le> maxSignatures ?cfg"
    "length (signatures ?v1) = numRequiredSignatures (message ?v1)"
    "signatures ?v1 = user_signature # []"
    "numRequiredSignatures (message ?v1) = 1"
    by (simp_all add: sample_defs)
  have a1: "admission_events ?e1 (message ?v1) (recentBlockhash (message ?v1)) = ?adm"
    "returned (sign ?e1 ?v1) = True"
    by (simp_all add: stage_defs sample_defs)
  from fee_payer_slot_rule [where e = ?e1 and now = 10 and c = empty_cache and req = sample_request
      and vtx = ?v1 and cfg = ?cfg and firstSig = user_signature and others = "[]"] at1 h1
  have "\<exists>rest. snd (fst (sponsor ?e1 ?cfg 10 empty_cache sample_request)) =
      admission_events ?e1 (message ?v1) (recentBlockhash (message ?v1))
        @ Sign (returned (sign ?e1 ?v1)) # rest"
    by blast
  then have r1: "\<exists>rest. snd (fst (sponsor ?e1 ?cfg 10 empty_cache sample_request)) =
      ?adm @ Sign True # rest"
    by (simp only: a1)
  have at2: "v0_at_signature_checks ?e2 10 empty_cache sample_request = Some ?v2"
    by (simp add: stage_defs sample_defs)
  have h2: "int (numRequiredSignatures (message ?v2)) \<le> maxSignatures ?cfg"
    "length (signatures ?v2) = numRequiredSignatures (message ?v2)"
    "signatures ?v2 = user_signature # [user_signature]"
    "numRequiredSignatures (message ?v2) \<noteq> 1"
    by (simp_all add: sample_defs)
  have a2: "admission_events ?e2 (message ?v2) (recentBlockhash (message ?v2)) = ?adm"
    by (simp add: stage_defs sample_defs)
  from fee_payer_slot_rule [where e = ?e2 and now = 10 and c = empty_cache and req = sample_request
      and vtx = ?v2 and cfg = ?cfg and firstSig = user_signature and others = "[user_signature]"]
    at2 h2 nz
  have "fst (sponsor ?e2 ?cfg 10 empty_cache sample_request) =
      (Responded (error_response ''invalid fee payer signature''),
       admission_events ?e2 (message ?v2) (recentBlockhash (message ?v2)))"
    by blast
  then have r2: "fst (sponsor ?e2 ?cfg 10 empty_cache sample_request) =
      (Responded (error_response ''invalid fee payer signature''), ?adm)"
    by (simp only: a2)
  have at3: "legacy_at_signature_checks ?e3 10 empty_cache sample_request = Some (?w, ?l)"
    by (simp add: stage_defs sample_defs)
  have h3: "legacy_signatures ?l = ?p # [?q]"
    "int (length (legacy_signatures ?l)) \<le> maxSignatures ?cfg"
    "publicKey ?p = Some (ENV_SECRET_KEYPAIR_publicKey ?e3)"
    "signature ?p \<noteq> None"
    by (simp_all add: sample_defs)
  have a3: "admission_events ?e3 (message ?w) (legacy_blockhash ?l) = ?adm"
    by (simp add: stage_defs sample_defs)
  from fee_payer_slot_rule [where e = ?e3 and now = 10 and c = empty_cache and req = sample_request
      and wire = ?w and legacyTx = ?l and cfg = ?cfg and primary = ?p and secondary = "[?q]"]
    at3 h3
  have "fst (sponsor ?e3 ?cfg 10 empty_cache sample_request) =
      (Responded (error_response ''invalid fee payer signature''),
       admission_events ?e3 (message ?w) (legacy_blockhash ?l))"
    by blast
  then have r3: "fst (sponsor ?e3 ?cfg 10 empty_cache sample_request) =
      (Responded (error_response ''invalid fee payer signature''), ?adm)"
    by (simp only: a3)
  from nz at1 r1 at2 r2 at3 r3 show ?thesis by blast
qed

text \<open>
  C4 as stated fails in the legacy format: a legacy transaction with a single slot, keyed
  to the service and already populated, is rejected with \<open>invalid fee payer signature\<close>;
  line 85 makes no exception for a count of one.
\<close>

theorem legacy_single_signer_counterexample:
  "transaction_from
      (sample_env (sample_wire_legacy [1] [user_signature])
         (sample_legacy [1] [\<lparr>signature = Some user_signature, publicKey = Some [1]\<rparr>])) [3]
     = Inr (sample_legacy [1] [\<lparr>signature = Some user_signature, publicKey = Some [1]\<rparr>])
   \<and> length (legacy_signatures
        (sample_legacy [1] [\<lparr>signature = Some user_signature, publicKey = Some [1]\<rparr>])) = 1
   \<and> fst (sponsor
        (sample_env (sample_wire_legacy [1] [user_signature])
           (sample_legacy [1] [\<lparr>signature = Some user_signature, publicKey = Some [1]\<rparr>]))
        (sample_config 2 None) 10 empty_cache sample_request) =
      (Responded (error_response ''invalid fee payer signature''),
       [CacheGet ''transaction/zzz'', CacheSet ''transaction/zzz'', IsBlockhashValid ''hash''])"
  by (simp add: sample_defs handler_defs list_all_replicate)

lemma check_signatures_v0_multi:
  assumes "int (numRequiredSignatures (message vtx)) \<le> maxSignatures cfg"
    and "length (signatures vtx) = numRequiredSignatures (message vtx)"
    and "signatures vtx = firstSig # others"
    and "numRequiredSignatures (message vtx) \<noteq> 1"
    and "every_zero firstSig"
  shows "check_signatures_v0 e cfg vtx =
     (if list_all every_zero others then Inr () else v0_check_present others)"
  using assms by (simp add: check_signatures_v0_def)

lemma check_signatures_legacy_secondary:
  assumes "legacy_signatures legacyTx = primary # secondary"
    and "int (length (legacy_signatures legacyTx)) \<le> maxSignatures cfg"
    and "publicKey primary = Some (ENV_SECRET_KEYPAIR_publicKey e)"
    and "signature primary = None"
  shows "check_signatures_legacy e cfg legacyTx =
     (if list_all legacy_unsigned secondary then Inr () else legacy_check_present secondary)"
  using assms by (simp add: check_signatures_legacy_def)

text \<open>
  C5, as amended: take a request that arrives at the signature checks with a count within
  the bound (for v0, as many slots as the header declares) and an empty fee payer slot. In
  the v0 format with more than one required
  signature, secondary slots of which some are all zero and some are not are rejected with
  \<open>missing required signature\<close>, and secondary slots that are all zero, or none of them
  all zero, let the transaction go on to be signed. In the legacy format, secondary slots
  of which one is \<open>null\<close> and one holds a signature that is not all zero are rejected
  with \<open>missing signature\<close> (or \<open>missing public key\<close>, when a slot before the first
  \<open>null\<close> one has no public key), and secondary slots that are all unsigned, or all
  signed and keyed, let the transaction go on to the instruction check. A rejection here
  follows the cache lookup, the cache set and the blockhash query, and nothing else.
\<close>

theorem secondary_slots_uniform:
  "(v0_at_signature_checks e now c req = Some vtx
      \<and> int (numRequiredSignatures (message vtx)) \<le> maxSignatures cfg
      \<and> length (signatures vtx) = numRequiredSignatures (message vtx)
      \<and> 1 < numRequiredSignatures (message vtx)
      \<and> signatures vtx = firstSig # others \<and> every_zero firstSig \<longrightarrow>
      ((\<exists>s \<in> set others. every_zero s) \<and> (\<exists>s \<in> set others. \<not> every_zero s) \<longrightarrow>
         fst (sponsor e cfg now c req) =
           (Responded (error_response ''missing required signature''),
            admission_events e (message vtx) (recentBlockhash (message vtx))))
      \<and> ((\<forall>s \<in> set others. every_zero s) \<or> (\<forall>s \<in> set others. \<not> every_zero s) \<longrightarrow>
         (\<exists>rest. snd (fst (sponsor e cfg now c req)) =
            admission_events e (message vtx) (recentBlockhash (message vtx))
              @ Sign (returned (sign e vtx)) # rest)))
   \<and> (legacy_at_signature_checks e now c req = Some (wire, legacyTx)
      \<and> int (length (legacy_signatures legacyTx)) \<le> maxSignatures cfg
      \<and> legacy_signatures legacyTx = primary # secondary
      \<and> publicKey primary = Some (ENV_SECRET_KEYPAIR_publicKey e)
      \<and> signature primary = None \<longrightarrow>
      ((\<exists>s \<in> set secondary. signature s = None) \<and> (\<exists>s \<in> set secondary. \<not> legacy_unsigned s) \<longrightarrow>
         snd (fst (sponsor e cfg now c req)) =
           admission_events e (message wire) (legacy_blockhash legacyTx)
         \<and> (fst (fst (sponsor e cfg now c req)) = Responded (error_response ''missing signature'')
            \<or> fst (fst (sponsor e cfg now c req)) = Responded (error_response ''missing public key''))
         \<and> ((\<forall>s \<in> set secondary. publicKey s \<noteq> None) \<longrightarrow>
              fst (fst (sponsor e cfg now c req)) = Responded (error_response ''missing signature'')))
      \<and> ((\<forall>s \<in> set secondary. legacy_unsigned s)
          \<or> (\<forall>s \<in> set secondary. signature s \<noteq> None \<and> publicKey s \<noteq> None) \<longrightarrow>
         (\<exists>rest. snd (fst (sponsor e cfg now c req)) =
            admission_events e (message wire) (legacy_blockhash legacyTx)
              @ ValidateInstructions (returned (validateInstructions e legacyTx)) # rest)))"
proof -
  have v0_mixed: "fst (sponsor e cfg now c req) =
           (Responded (error_response ''missing required signature''),
            admission_events e (message vtx) (recentBlockhash (message vtx)))"
    if "v0_at_signature_checks e now c req = Some vtx"
      and "int (numRequiredSignatures (message vtx)) \<le> maxSignatures cfg"
      and "length (signatures vtx) = numRequiredSignatures (message vtx)"
      and "1 < numRequiredSignatures (message vtx)"
      and "signatures vtx = firstSig # others" and "every_zero firstSig"
      and "\<exists>s \<in> set others. every_zero s" and "\<exists>s \<in> set others. \<not> every_zero s"
  proof -
    from that(4) have "numRequiredSignatures (message vtx) \<noteq> 1" by simp
    from check_signatures_v0_multi [OF that(2,3,5) this that(6)] that(7,8)
    have "check_signatures_v0 e cfg vtx = Inl (Error ''missing required signature'')"
      by (simp add: v0_check_present_mixed list_all_iff)
    with that(1) show ?thesis by (rule sponsor_v0_rejects)
  qed
  have v0_uniform: "\<exists>rest. snd (fst (sponsor e cfg now c req)) =
            admission_events e (message vtx) (recentBlockhash (message vtx))
              @ Sign (returned (sign e vtx)) # rest"
    if "v0_at_signature_checks e now c req = Some vtx"
      and "int (numRequiredSignatures (message vtx)) \<le> maxSignatures cfg"
      and "length (signatures vtx) = numRequiredSignatures (message vtx)"
      and "1 < numRequiredSignatures (message vtx)"
      and "signatures vtx = firstSig # others" and "every_zero firstSig"
      and "(\<forall>s \<in> set others. every_zero s) \<or> (\<forall>s \<in> set others. \<not> every_zero s)"
  proof -
    from that(4) have "numRequiredSignatures (message vtx) \<noteq> 1" by simp
    from check_signatures_v0_multi [OF that(2,3,5) this that(6)] that(7)
    have "check_signatures_v0 e cfg vtx = Inr ()"
      by (auto simp: v0_check_present_full list_all_iff)
    with that(1) show ?thesis by (rule sponsor_v0_accepts)
  qed
  have legacy_mixed: "snd (fst (sponsor e cfg now c req)) =
           admission_events e (message wire) (legacy_blockhash legacyTx)
         \<and> (fst (fst (sponsor e cfg now c req)) = Responded (error_response ''missing signature'')
            \<or> fst (fst (sponsor e cfg now c req)) = Responded (error_response ''missing public key''))
         \<and> ((\<forall>s \<in> set secondary. publicKey s \<noteq> None) \<longrightarrow>
              fst (fst (sponsor e cfg now c req)) = Responded (error_response ''missing signature''))"
    if "legacy_at_signature_checks e now c req = Some (wire, legacyTx)"
      and "int (length (legacy_signatures legacyTx)) \<le> maxSignatures cfg"
      and "legacy_signatures legacyTx = primary # secondary"
      and "publicKey primary = Some (ENV_SECRET_KEYPAIR_publicKey e)"
      and "signature primary = None"
      and "\<exists>s \<in> set secondary. signature s = None" and "\<exists>s \<in> set secondary. \<not> legacy_unsigned s"
  proof -
    from check_signatures_legacy_secondary [OF that(3,2,4,5)] that(7)
    have chk: "check_signatures_legacy e cfg legacyTx = legacy_check_present secondary"
      by (auto simp: list_all_iff)
    from legacy_check_present_missing [OF that(6)]
    consider "legacy_check_present secondary = Inl (Error ''missing public key'')"
      | "legacy_check_present secondary = Inl (Error ''missing signature'')" by blast
    then have a: "snd (fst (sponsor e cfg now c req)) =
           admission_events e (message wire) (legacy_blockhash legacyTx)
         \<and> (fst (fst (sponsor e cfg now c req)) = Responded (error_response ''missing signature'')
            \<or> fst (fst (sponsor e cfg now c req)) = Responded (error_response ''missing public key''))"
    proof cases
      case 1
      with chk sponsor_legacy_rejects [OF that(1), of cfg "''missing public key''"]
      show ?thesis by simp
    next
      case 2
      with chk sponsor_legacy_rejects [OF that(1), of cfg "''missing signature''"]
      show ?thesis by simp
    qed
    have b: "fst (fst (sponsor e cfg now c req)) = Responded (error_response ''missing signature'')"
      if keyed: "\<forall>s \<in> set secondary. publicKey s \<noteq> None"
    proof -
      from legacy_check_present_missing_keyed [OF \<open>\<exists>s \<in> set secondary. signature s = None\<close> keyed] chk
      have "check_signatures_legacy e cfg legacyTx = Inl (Error ''missing signature'')" by simp
      from sponsor_legacy_rejects [OF \<open>legacy_at_signature_checks e now c req = Some (wire, legacyTx)\<close> this]
      show ?thesis by simp
    qed
    from a b show ?thesis by blast
  qed
  have legacy_uniform: "\<exists>rest. snd (fst (sponsor e cfg now c req)) =
            admission_events e (message wire) (legacy_blockhash legacyTx)
              @ ValidateInstructions (returned (validateInstructions e legacyTx)) # rest"
    if "legacy_at_signature_checks e now c req = Some (wire, legacyTx)"
      and "int (length (legacy_signatures legacyTx)) \<le> maxSignatures cfg"
      and "legacy_signatures legacyTx = primary # secondary"
      and "publicKey primary = Some (ENV_SECRET_KEYPAIR_publicKey e)"
      and "signature primary = None"
      and "(\<forall>s \<in> set secondary. legacy_unsigned s)
          \<or> (\<forall>s \<in> set secondary. signature s \<noteq> None \<and> publicKey s \<noteq> None)"
  proof -
    from check_signatures_legacy_secondary [OF that(3,2,4,5)] that(6)
    have "check_signatures_legacy e cfg legacyTx = Inr ()"
      by (auto simp: legacy_check_present_full list_all_iff)
    with that(1) show ?thesis by (rule sponsor_legacy_accepts)
  qed
  from v0_mixed v0_uniform legacy_mixed legacy_uniform show ?thesis by blast
qed

theorem secondary_slots_uniform_witness:
  "(\<exists>s \<in> set [user_signature, null_signature]. every_zero s)
   \<and> (\<exists>s \<in> set [user_signature, null_signature]. \<not> every_zero s)
   \<and> fst (sponsor (sample_env (sample_v0 3 [1] [null_signature, user_signature, null_signature]) no_legacy)
          (sample_config 3 None) 10 empty_cache sample_request) =
        (Responded (error_response ''missing required signature''),
         [CacheGet ''transaction/zzz'', CacheSet ''transaction/zzz'', IsBlockhashValid ''hash''])
   \<and> \<not> every_zero user_signature
   \<and> (\<exists>rest. snd (fst (sponsor
          (sample_env (sample_v0 3 [1] [null_signature, user_signature, user_signature]) no_legacy)
          (sample_config 3 None) 10 empty_cache sample_request)) =
        [CacheGet ''transaction/zzz'', CacheSet ''transaction/zzz'', IsBlockhashValid ''hash'']
          @ Sign True # rest)
   \<and> (\<exists>s \<in> set [\<lparr>signature = Some user_signature, publicKey = Some [2]\<rparr>,
                    \<lparr>signature = None, publicKey = Some [4]\<rparr>]. signature s = None)
   \<and> (\<exists>s \<in> set [\<lparr>signature = Some user_signature, publicKey = Some [2]\<rparr>,
                    \<lparr>signature = None, publicKey = Some [4]\<rparr>]. \<not> legacy_unsigned s)
   \<and> fst (fst (sponsor
        (sample_env (sample_wire_legacy [1] [null_signature, user_signature, null_signature])
           (sample_legacy [1] [\<lparr>signature = None, publicKey = Some [1]\<rparr>,
                               \<lparr>signature = Some user_signature, publicKey = Some [2]\<rparr>,
                               \<lparr>signature = None, publicKey = Some [4]\<rparr>]))
        (sample_config 3 None) 10 empty_cache sample_request)) =
        Responded (error_response ''missing signature'')
   \<and> legacy_unsigned \<lparr>signature = None, publicKey = Some [2]\<rparr>
   \<and> legacy_unsigned \<lparr>signature = None, publicKey = Some [4]\<rparr>
   \<and> (\<exists>rest. snd (fst (sponsor
        (sample_env (sample_wire_legacy [1] [null_signature, null_signature, null_signature])
           (sample_legacy [1] [\<lparr>signature = None, publicKey = Some [1]\<rparr>,
                               \<lparr>signature = None, publicKey = Some [2]\<rparr>,
                               \<lparr>signature = None, publicKey = Some [4]\<rparr>]))
        (sample_config 3 None) 10 empty_cache sample_request)) =
        [CacheGet ''transaction/zzz'', CacheSet ''transaction/zzz'', IsBlockhashValid ''hash'']
          @ ValidateInstructions True # rest)"
proof -
  let ?cfg = "sample_config 3 None"
  let ?adm = "[CacheGet ''transaction/zzz'', CacheSet ''transaction/zzz'', IsBlockhashValid ''hash'']"
  let ?v1 = "sample_v0 3 [1] [null_signature, user_signature, null_signature]"
  let ?e1 = "sample_env ?v1 no_legacy"
  let ?v2 = "sample_v0 3 [1] [null_signature, user_signature, user_signature]"
  let ?e2 = "sample_env ?v2 no_legacy"
  let ?p = "\<lparr>signature = None, publicKey = Some [1]\<rparr>"
  let ?q = "\<lparr>signature = Some user_signature, publicKey = Some [2]\<rparr>"
  let ?r = "\<lparr>signature = None, publicKey = Some [4]\<rparr>"
  let ?u = "\<lparr>signature = None, publicKey = Some [2]\<rparr>"
  let ?w3 = "sample_wire_legacy [1] [null_signature, user_signature, null_signature]"
  let ?l3 = "sample_legacy [1] [?p, ?q, ?r]"
  let ?e3 = "sample_env ?w3 ?l3"
  let ?w4 = "sample_wire_legacy [1] [null_signature, null_signature, null_signature]"
  let ?l4 = "sample_legacy [1] [?p, ?u, ?r]"
  let ?e4 = "sample_env ?w4 ?l4"
  have z: "every_zero null_signature" "\<not> every_zero user_signature"
    by (simp_all add: every_zero_def null_signature_def user_signature_def list_all_replicate)
  have m1: "\<exists>s \<in> set [user_signature, null_signature]. every_zero s"
    "\<exists>s \<in> set [user_signature, null_signature]. \<not> every_zero s"
    using z by simp_all
  have at1: "v0_at_signature_checks ?e1 10 empty_cache sample_request = Some ?v1"
    by (simp add: stage_defs sample_defs)
  have h1: "int (numRequiredSignatures (message ?v1)) \<le> maxSignatures ?cfg"
    "length (signatures ?v1) = numRequiredSignatures (message ?v1)"
    "1 < numRequiredSignatures (message ?v1)"
    "signatures ?v1 = null_signature # [user_signature, null_signature]"
    by (simp_all add: sample_message_def sample_v0_def sample_config_def)
  have a1: "admission_events ?e1 (message ?v1) (recentBlockhash (message ?v1)) = ?adm"
    by (simp add: stage_defs sample_defs)
  from secondary_slots_uniform [where e = ?e1 and now = 10 and c = empty_cache
      and req = sample_request and vtx = ?v1 and cfg = ?cfg and firstSig = null_signature
      and others = "[user_signature, null_signature]"] at1 h1 z(1) m1
  have "fst (sponsor ?e1 ?cfg 10 empty_cache sample_request) =
      (Responded (error_response ''missing required signature''),
       admission_events ?e1 (message ?v1) (recentBlockhash (message ?v1)))"
    by blast
  then have r1: "fst (sponsor ?e1 ?cfg 10 empty_cache sample_request) =
      (Responded (error_response ''missing required signature''), ?adm)"
    by (simp only: a1)
  have m2: "\<forall>s \<in> set [user_signature, user_signature]. \<not> every_zero s"
    using z by simp
  have at2: "v0_at_signature_checks ?e2 10 empty_cache sample_request = Some ?v2"
    by (simp add: stage_defs sample_defs)
  have h2: "int (numRequiredSignatures (message ?v2)) \<le> maxSignatures ?cfg"
    "length (signatures ?v2) = numRequiredSignatures (message ?v2)"
    "1 < numRequiredSignatures (message ?v2)"
    "signatures ?v2 = null_signature # [user_signature, user_signature]"
    by (simp_all add: sample_message_def sample_v0_def sample_config_def)
  have a2: "admission_events ?e2 (message ?v2) (recentBlockhash (message ?v2)) = ?adm"
    "returned (sign ?e2 ?v2) = True"
    by (simp_all add: stage_defs sample_defs)
  from secondary_slots_uniform [where e = ?e2 and now = 10 and c = empty_cache
      and req = sample_request and vtx = ?v2 and cfg = ?cfg and firstSig = null_signature
      and others = "[user_signature, user_signature]"] at2 h2 z(1) m2
  have "\<exists>rest. snd (fst (sponsor ?e2 ?cfg 10 empty_cache sample_request)) =
      admission_events ?e2 (message ?v2) (recentBlockhash (message ?v2))
        @ Sign (returned (sign ?e2 ?v2)) # rest"
    by blast
  then have r2: "\<exists>rest. snd (fst (sponsor ?e2 ?cfg 10 empty_cache sample_request)) =
      ?adm @ Sign True # rest"
    by (simp only: a2)
  have m3: "\<exists>s \<in> set [?q, ?r]. signature s = None" "\<exists>s \<in> set [?q, ?r]. \<not> legacy_unsigned s"
    "\<forall>s \<in> set [?q, ?r]. publicKey s \<noteq> None"
    using z by (simp_all add: legacy_unsigned_def)
  have at3: "legacy_at_signature_checks ?e3 10 empty_cache sample_request = Some (?w3, ?l3)"
    by (simp add: stage_defs sample_defs)
  have h3: "int (length (legacy_signatures ?l3)) \<le> maxSignatures ?cfg"
    "legacy_signatures ?l3 = ?p # [?q, ?r]"
    "publicKey ?p = Some (ENV_SECRET_KEYPAIR_publicKey ?e3)"
    "signature ?p = None"
    by (simp_all add: sample_legacy_def sample_config_def sample_env_def)
  from secondary_slots_uniform [where e = ?e3 and now = 10 and c = empty_cache
      and req = sample_request and wire = ?w3 and legacyTx = ?l3 and cfg = ?cfg and primary = ?p
      and secondary = "[?q, ?r]"] at3 h3 m3
  have r3: "fst (fst (sponsor ?e3 ?cfg 10 empty_cache sample_request)) =
      Responded (error_response ''missing signature'')"
    by blast
  have m4: "\<forall>s \<in> set [?u, ?r]. legacy_unsigned s"
    by (simp add: legacy_unsigned_def)
  have at4: "legacy_at_signature_checks ?e4 10 empty_cache sample_request = Some (?w4, ?l4)"
    by (simp add: stage_defs sample_defs)
  have h4: "int (length (legacy_signatures ?l4)) \<le> maxSignatures ?cfg"
    "legacy_signatures ?l4 = ?p # [?u, ?r]"
    "publicKey ?p = Some (ENV_SECRET_KEYPAIR_publicKey ?e4)"
    "signature ?p = None"
    by (simp_all add: sample_legacy_def sample_config_def sample_env_def)
  have a4: "admission_events ?e4 (message ?w4) (legacy_blockhash ?l4) = ?adm"
    "returned (validateInstructions ?e4 ?l4) = True"
    by (simp_all add: stage_defs sample_defs)
  from secondary_slots_uniform [where e = ?e4 and now = 10 and c = empty_cache
      and req = sample_request and wire = ?w4 and legacyTx = ?l4 and cfg = ?cfg and primary = ?p
      and secondary = "[?u, ?r]"] at4 h4 m4
  have "\<exists>rest. snd (fst (sponsor ?e4 ?cfg 10 empty_cache sample_request)) =
      admission_events ?e4 (message ?w4) (legacy_blockhash ?l4)
        @ ValidateInstructions (returned (validateInstructions ?e4 ?l4)) # rest"
    by blast
  then have r4: "\<exists>rest. snd (fst (sponsor ?e4 ?cfg 10 empty_cache sample_request)) =
      ?adm @ ValidateInstructions True # rest"
    by (simp only: a4)
  have u: "legacy_unsigned ?u" "legacy_unsigned ?r"
    by (simp_all add: legacy_unsigned_def)
  from m1 r1 z(2) r2 m3(1,2) r3 u r4 show ?thesis by (simp only: simp_thms)
qed

text \<open>
  C5 as stated fails in the legacy format: with the secondary slots mixed, the legacy
  chain answers \<open>missing signature\<close> (line 97), not \<open>missing required signature\<close>.
\<close>

theorem legacy_mixed_slots_counterexample:
  "legacy_signatures
      (sample_legacy [1] [\<lparr>signature = None, publicKey = Some [1]\<rparr>,
                          \<lparr>signature = Some user_signature, publicKey = Some [2]\<rparr>,
                          \<lparr>signature = None, publicKey = Some [4]\<rparr>]) =
      [\<lparr>signature = None, publicKey = Some [1]\<rparr>,
       \<lparr>signature = Some user_signature, publicKey = Some [2]\<rparr>,
       \<lparr>signature = None, publicKey = Some [4]\<rparr>]
   \<and> fst (sponsor
        (sample_env (sample_wire_legacy [1] [null_signature, user_signature, null_signature])
           (sample_legacy [1] [\<lparr>signature = None, publicKey = Some [1]\<rparr>,
                               \<lparr>signature = Some user_signature, publicKey = Some [2]\<rparr>,
                               \<lparr>signature = None, publicKey = Some [4]\<rparr>]))
        (sample_config 3 None) 10 empty_cache sample_request) =
      (Responded (error_response ''missing signature''),
       [CacheGet ''transaction/zzz'', CacheSet ''transaction/zzz'', IsBlockhashValid ''hash''])
   \<and> error_response ''missing signature'' \<noteq> error_response ''missing required signature''"
  by (simp add: sample_defs handler_defs list_all_replicate)

subsection \<open>Signature count\<close>

lemma sponsor_sign_cases:
  assumes "decoded e req = Some (buffer, vtx)"
    and "Sign b \<in> set (snd (fst (sponsor e cfg now c req)))"
  shows "if version (message vtx) = Legacy
         then Sign b \<in> set (snd (sponsor_legacy e cfg req buffer))
         else Sign b \<in> set (snd (sponsor_v0 e cfg req vtx))"
  using assms(2) by (auto simp: sponsor_events [OF assms(1)] split: if_splits)

text \<open>
  C6, as amended: the count is the number of signature slots of a legacy transaction and
  the declared number of required signatures of a v0 transaction. A transaction is signed
  only when its count is at least 1 and at most \<open>maxSignatures\<close>. Among the requests
  that arrive at the signature checks, a count above \<open>maxSignatures\<close> is rejected with
  \<open>too many signatures\<close>. The rejection follows the cache lookup, the cache set and
  the blockhash query to the ledger and precedes every other call: nothing is signed,
  simulated or submitted.
\<close>

theorem signature_count_bound:
  "(decoded e req = Some (buffer, vtx) \<and> Sign b \<in> set (snd (fst (sponsor e cfg now c req))) \<longrightarrow>
      (version (message vtx) = V0 \<longrightarrow>
         1 \<le> numRequiredSignatures (message vtx)
         \<and> int (numRequiredSignatures (message vtx)) \<le> maxSignatures cfg)
      \<and> (version (message vtx) = Legacy \<longrightarrow>
         (\<exists>legacyTx. transaction_from e buffer = Inr legacyTx
            \<and> 1 \<le> length (legacy_signatures legacyTx)
            \<and> int (length (legacy_signatures legacyTx)) \<le> maxSignatures cfg)))
   \<and> (v0_at_signature_checks e now c req = Some vtx
      \<and> maxSignatures cfg < int (numRequiredSignatures (message vtx)) \<longrightarrow>
      fst (sponsor e cfg now c req) =
        (Responded (error_response ''too many signatures''),
         admission_events e (message vtx) (recentBlockhash (message vtx))))
   \<and> (legacy_at_signature_checks e now c req = Some (wire, legacyTx)
      \<and> legacy_signatures legacyTx \<noteq> []
      \<and> maxSignatures cfg < int (length (legacy_signatures legacyTx)) \<longrightarrow>
      fst (sponsor e cfg now c req) =
        (Responded (error_response ''too many signatures''),
         admission_events e (message wire) (legacy_blockhash legacyTx)))"
proof -
  have signed_v0: "1 \<le> numRequiredSignatures (message vtx)
         \<and> int (numRequiredSignatures (message vtx)) \<le> maxSignatures cfg"
    if "decoded e req = Some (buffer, vtx)"
      and "Sign b \<in> set (snd (fst (sponsor e cfg now c req)))"
      and "version (message vtx) = V0"
  proof -
    from sponsor_sign_cases [OF that(1,2)] that(3)
    have "Sign b \<in> set (snd (sponsor_v0 e cfg req vtx))" by simp
    then have "check_signatures_v0 e cfg vtx = Inr ()" by (rule sponsor_v0_sign)
    from check_signatures_v0_accepts [OF this] show ?thesis by blast
  qed
  have signed_legacy: "\<exists>legacyTx. transaction_from e buffer = Inr legacyTx
            \<and> 1 \<le> length (legacy_signatures legacyTx)
            \<and> int (length (legacy_signatures legacyTx)) \<le> maxSignatures cfg"
    if "decoded e req = Some (buffer, vtx)"
      and "Sign b \<in> set (snd (fst (sponsor e cfg now c req)))"
      and "version (message vtx) = Legacy"
  proof -
    from sponsor_sign_cases [OF that(1,2)] that(3)
    have "Sign b \<in> set (snd (sponsor_legacy e cfg req buffer))" by simp
    from sponsor_legacy_sign [OF this] obtain legacyTx
      where "transaction_from e buffer = Inr legacyTx"
        and "check_signatures_legacy e cfg legacyTx = Inr ()" by blast
    with check_signatures_legacy_accepts [of e cfg legacyTx] show ?thesis by blast
  qed
  have many_v0: "fst (sponsor e cfg now c req) =
        (Responded (error_response ''too many signatures''),
         admission_events e (message vtx) (recentBlockhash (message vtx)))"
    if "v0_at_signature_checks e now c req = Some vtx"
      and "maxSignatures cfg < int (numRequiredSignatures (message vtx))"
  proof -
    from that(2) have "check_signatures_v0 e cfg vtx = Inl (Error ''too many signatures'')"
      by (simp add: check_signatures_v0_def)
    with that(1) show ?thesis by (rule sponsor_v0_rejects)
  qed
  have many_legacy: "fst (sponsor e cfg now c req) =
        (Responded (error_response ''too many signatures''),
         admission_events e (message wire) (legacy_blockhash legacyTx))"
    if "legacy_at_signature_checks e now c req = Some (wire, legacyTx)"
      and "legacy_signatures legacyTx \<noteq> []"
      and "maxSignatures cfg < int (length (legacy_signatures legacyTx))"
  proof -
    from that(2) obtain p rest where "legacy_signatures legacyTx = p # rest"
      by (cases "legacy_signatures legacyTx") auto
    with that(3)
    have "check_signatures_legacy e cfg legacyTx = Inl (Error ''too many signatures'')"
      by (simp add: check_signatures_legacy_def)
    with that(1) show ?thesis by (rule sponsor_legacy_rejects)
  qed
  from signed_v0 signed_legacy many_v0 many_legacy show ?thesis by blast
qed

theorem signature_count_bound_witness:
  "Sign True \<in> set (snd (fst (sponsor (sample_env (sample_v0 1 [1] [null_signature]) no_legacy)
        (sample_config 2 None) 10 empty_cache sample_request)))
   \<and> 1 \<le> numRequiredSignatures (message (sample_v0 1 [1] [null_signature]))
   \<and> int (numRequiredSignatures (message (sample_v0 1 [1] [null_signature])))
        \<le> maxSignatures (sample_config 2 None)
   \<and> maxSignatures (sample_config 2 None)
        < int (numRequiredSignatures
            (message (sample_v0 3 [1] [null_signature, null_signature, null_signature])))
   \<and> fst (sponsor
        (sample_env (sample_v0 3 [1] [null_signature, null_signature, null_signature]) no_legacy)
        (sample_config 2 None) 10 empty_cache sample_request) =
      (Responded (error_response ''too many signatures''),
       [CacheGet ''transaction/zzz'', CacheSet ''transaction/zzz'', IsBlockhashValid ''hash''])
   \<and> fst (sponsor
        (sample_env (sample_wire_legacy [1] [null_signature, null_signature, null_signature])
           (sample_legacy [1] [\<lparr>signature = None, publicKey = Some [1]\<rparr>,
                               \<lparr>signature = None, publicKey = Some [2]\<rparr>,
                               \<lparr>signature = None, publicKey = Some [4]\<rparr>]))
        (sample_config 2 None) 10 empty_cache sample_request) =
      (Responded (error_response ''too many signatures''),
       [CacheGet ''transaction/zzz'', CacheSet ''transaction/zzz'', IsBlockhashValid ''hash''])"
proof -
  let ?cfg = "sample_config 2 None"
  let ?adm = "[CacheGet ''transaction/zzz'', CacheSet ''transaction/zzz'', IsBlockhashValid ''hash'']"
  let ?v1 = "sample_v0 1 [1] [null_signature]"
  let ?e1 = "sample_env ?v1 no_legacy"
  let ?v2 = "sample_v0 3 [1] [null_signature, null_signature, null_signature]"
  let ?e2 = "sample_env ?v2 no_legacy"
  let ?p = "\<lparr>signature = None, publicKey = Some [1]\<rparr>"
  let ?u = "\<lparr>signature = None, publicKey = Some [2]\<rparr>"
  let ?r = "\<lparr>signature = None, publicKey = Some [4]\<rparr>"
  let ?w3 = "sample_wire_legacy [1] [null_signature, null_signature, null_signature]"
  let ?l3 = "sample_legacy [1] [?p, ?u, ?r]"
  let ?e3 = "sample_env ?w3 ?l3"
  have d1: "decoded ?e1 sample_request = Some ([3], ?v1)"
    by (simp add: decoded_def sample_defs)
  have s1: "Sign True \<in> set (snd (fst (sponsor ?e1 ?cfg 10 empty_cache sample_request)))"
    by (simp add: sample_defs handler_defs list_all_replicate)
  have v1: "version (message ?v1) = V0" by (simp add: sample_defs)
  from signature_count_bound [where e = ?e1 and req = sample_request and buffer = "[3]"
      and vtx = ?v1 and b = True and cfg = ?cfg and now = 10 and c = empty_cache] d1 s1 v1
  have r1: "1 \<le> numRequiredSignatures (message ?v1)
      \<and> int (numRequiredSignatures (message ?v1)) \<le> maxSignatures ?cfg"
    by blast
  have at2: "v0_at_signature_checks ?e2 10 empty_cache sample_request = Some ?v2"
    by (simp add: stage_defs sample_defs)
  have h2: "maxSignatures ?cfg < int (numRequiredSignatures (message ?v2))"
    by (simp add: sample_defs)
  have a2: "admission_events ?e2 (message ?v2) (recentBlockhash (message ?v2)) = ?adm"
    by (simp add: stage_defs sample_defs)
  from signature_count_bound [where e = ?e2 and req = sample_request
      and vtx = ?v2 and cfg = ?cfg and now = 10 and c = empty_cache] at2 h2
  have "fst (sponsor ?e2 ?cfg 10 empty_cache sample_request) =
      (Responded (error_response ''too many signatures''),
       admission_events ?e2 (message ?v2) (recentBlockhash (message ?v2)))"
    by blast
  then have r2: "fst (sponsor ?e2 ?cfg 10 empty_cache sample_request) =
      (Responded (error_response ''too many signatures''), ?adm)"
    by (simp only: a2)
  have at3: "legacy_at_signature_checks ?e3 10 empty_cache sample_request = Some (?w3, ?l3)"
    by (simp add: stage_defs sample_defs)
  have h3: "legacy_signatures ?l3 \<noteq> []"
    "maxSignatures ?cfg < int (length (legacy_signatures ?l3))"
    by (simp_all add: sample_defs)
  have a3: "admission_events ?e3 (message ?w3) (legacy_blockhash ?l3) = ?adm"
    by (simp add: stage_defs sample_defs)
  from signature_count_bound [where e = ?e3 and req = sample_request
      and wire = ?w3 and legacyTx = ?l3 and cfg = ?cfg and now = 10 and c = empty_cache] at3 h3
  have "fst (sponsor ?e3 ?cfg 10 empty_cache sample_request) =
      (Responded (error_response ''too many signatures''),
       admission_events ?e3 (message ?w3) (legacy_blockhash ?l3))"
    by blast
  then have r3: "fst (sponsor ?e3 ?cfg 10 empty_cache sample_request) =
      (Responded (error_response ''too many signatures''), ?adm)"
    by (simp only: a3)
  from s1 r1 h2 r2 r3 show ?thesis by blast
qed

text \<open>
  C6 as stated fails on the order of the calls: a v0 transaction declaring three required
  signatures under \<open>maxSignatures = 2\<close> is rejected with \<open>too many signatures\<close> only
  after the ledger was asked whether the blockhash is valid (line 150 precedes line 157).
  It fails on \<open>no signatures\<close> as well: a legacy transaction without any signature
  slot declares no required signature, so it has no fee payer and the fee payer check of
  line 58, which precedes line 74, answers \<open>invalid fee payer\<close>.
\<close>

theorem too_many_signatures_counterexample:
  "numRequiredSignatures
      (message (sample_v0 3 [1] [null_signature, null_signature, null_signature])) = 3
   \<and> maxSignatures (sample_config 2 None) = 2
   \<and> fst (sponsor
        (sample_env (sample_v0 3 [1] [null_signature, null_signature, null_signature]) no_legacy)
        (sample_config 2 None) 10 empty_cache sample_request) =
      (Responded (error_response ''too many signatures''),
       [CacheGet ''transaction/zzz'', CacheSet ''transaction/zzz'', IsBlockhashValid ''hash''])
   \<and> numRequiredSignatures (message (sample_wire_legacy [1] [])) = 0
   \<and> signatures (sample_wire_legacy [1] []) = []
   \<and> fst (sponsor
        (sample_env (sample_wire_legacy [1] [])
           \<lparr>feePayer = None, legacy_recentBlockhash = Some ''hash'', legacy_signatures = []\<rparr>)
        (sample_config 2 None) 10 empty_cache sample_request) =
      (Responded (error_response ''invalid fee payer''),
       [CacheGet ''transaction/zzz'', CacheSet ''transaction/zzz''])"
  by (simp add: sample_defs handler_defs list_all_replicate)

subsection \<open>Requests that overlap\<close>

lemma sponsor_two_steps:
  "sponsor e cfg now c req =
     (case sponsor_lookup e now c req of
        Finished out t \<Rightarrow> ((out, t), c)
      | Passed buffer vtx \<Rightarrow> sponsor_resume e cfg now c req buffer vtx)"
  by (simp add: sponsor_def sponsor_lookup_def sponsor_resume_def sponsor_try_def Let_def
        io_simps io_throw_def catch_all_def catch_message_def
        split: js_value.splits sum.splits)

lemma sponsor_lookup_duplicate:
  assumes "decoded e req = Some (buffer, vtx)"
    and "cache_get c now (cache_key e (message vtx))"
  shows "sponsor_lookup e now c req =
     Finished (Responded (error_response ''duplicate transaction''))
       [CacheGet (cache_key e (message vtx))]"
  using assms
  by (auto simp: sponsor_lookup_def decoded_def split: js_value.splits sum.splits)

lemma sponsor_lookup_passes:
  assumes "decoded e req = Some (buffer, vtx)"
    and "\<not> cache_get c now (cache_key e (message vtx))"
  shows "sponsor_lookup e now c req = Passed buffer vtx"
  using assms
  by (auto simp: sponsor_lookup_def decoded_def split: js_value.splits sum.splits)

lemma sponsor_resume_cache:
  "snd (sponsor_resume e cfg now c req buffer vtx) = cache_set c now (cache_key e (message vtx))"
  by (simp add: sponsor_resume_def Let_def)

lemma resume_all_keeps_lock:
  assumes "entries c k = Some t0" and "t1 \<le> t0"
    and "\<forall>(e, cfg, now, req, buffer, vtx) \<in> set mid. t1 \<le> now"
  shows "(\<exists>t0'. entries (resume_all c mid) k = Some t0' \<and> t1 \<le> t0')
     \<and> ttl (resume_all c mid) = ttl c"
  using assms
proof (induction mid arbitrary: c t0)
  case Nil
  then show ?case by simp
next
  case (Cons r mid)
  obtain e cfg now req buffer vtx where r: "r = (e, cfg, now, req, buffer, vtx)"
    by (cases r) auto
  let ?c = "snd (sponsor_resume e cfg now c req buffer vtx)"
  from Cons.prems r have now: "t1 \<le> now" by simp
  with Cons.prems(1,2) have "\<exists>t0'. entries ?c k = Some t0' \<and> t1 \<le> t0'"
    by (simp add: sponsor_resume_cache cache_set_def)
  then obtain t0' where t0': "entries ?c k = Some t0'" "t1 \<le> t0'" by blast
  have ttl: "ttl ?c = ttl c" by (simp add: sponsor_resume_cache cache_set_def)
  from Cons.prems(3) have rest: "\<forall>(e, cfg, now, req, buffer, vtx) \<in> set mid. t1 \<le> now"
    by auto
  from Cons.IH [OF t0' rest] show ?case by (simp add: r ttl)
qed

text \<open>
  C2, as amended: a request whose cache lookup follows the moment an earlier request with
  the same message bytes set the lock, by less than the TTL, is answered
  \<open>duplicate transaction\<close>; its only call is the lookup, so nothing is submitted a
  second time. This holds whatever second steps of other requests fall between the two, and
  whether or not the earlier request went on to be sponsored. A request whose lookup comes
  once the TTL has passed is not stopped by the old entry: it passes the lookup and is
  answered, with the same calls, as if the digest had never been locked.
\<close>

theorem lock_excludes_later_lookups:
  assumes "decoded e2 req2 = Some (buffer2, vtx2)"
    and "serialize_message e2 (message vtx2) = serialize_message e1 (message vtx1)"
    and "sha256 e2 = sha256 e1" and "base58_encode e2 = base58_encode e1"
    and "\<forall>(e, cfg, now, req, buffer, vtx) \<in> set mid. now1 \<le> now"
  shows "(now2 < now1 + ttl c \<longrightarrow>
            sponsor_lookup e2 now2
                (resume_all (snd (sponsor_resume e1 cfg1 now1 c req1 buffer1 vtx1)) mid) req2 =
              Finished (Responded (error_response ''duplicate transaction''))
                [CacheGet (cache_key e1 (message vtx1))]
            \<and> sponsor e2 cfg2 now2
                (resume_all (snd (sponsor_resume e1 cfg1 now1 c req1 buffer1 vtx1)) mid) req2 =
              ((Responded (error_response ''duplicate transaction''),
                [CacheGet (cache_key e1 (message vtx1))]),
               resume_all (snd (sponsor_resume e1 cfg1 now1 c req1 buffer1 vtx1)) mid))
       \<and> (now1 + ttl c \<le> now2 \<longrightarrow>
            sponsor_lookup e2 now2 (snd (sponsor_resume e1 cfg1 now1 c req1 buffer1 vtx1)) req2 =
              Passed buffer2 vtx2
            \<and> fst (sponsor e2 cfg2 now2 (snd (sponsor_resume e1 cfg1 now1 c req1 buffer1 vtx1)) req2) =
              fst (sponsor e2 cfg2 now2
                     (c\<lparr>entries := (entries c)(cache_key e1 (message vtx1) := None)\<rparr>) req2))"
proof -
  let ?k = "cache_key e1 (message vtx1)"
  let ?c1 = "snd (sponsor_resume e1 cfg1 now1 c req1 buffer1 vtx1)"
  have k2: "cache_key e2 (message vtx2) = ?k"
    using assms(2-4) by (rule cache_key_cong)
  have c1: "?c1 = cache_set c now1 ?k"
    by (rule sponsor_resume_cache)
  have within: "sponsor_lookup e2 now2 (resume_all ?c1 mid) req2 =
        Finished (Responded (error_response ''duplicate transaction'')) [CacheGet ?k]
      \<and> sponsor e2 cfg2 now2 (resume_all ?c1 mid) req2 =
        ((Responded (error_response ''duplicate transaction''), [CacheGet ?k]), resume_all ?c1 mid)"
    if "now2 < now1 + ttl c"
  proof -
    have "entries ?c1 ?k = Some now1" by (simp add: c1 cache_set_def)
    from resume_all_keeps_lock [OF this order_refl assms(5)]
    obtain t0' where "entries (resume_all ?c1 mid) ?k = Some t0'" "now1 \<le> t0'"
      "ttl (resume_all ?c1 mid) = ttl ?c1" by blast
    with that have hit: "cache_get (resume_all ?c1 mid) now2 (cache_key e2 (message vtx2))"
      by (simp add: cache_get_def c1 cache_set_def k2)
    from sponsor_lookup_duplicate [OF assms(1) hit] sponsor_duplicate [OF assms(1) hit, of cfg2] k2
    show ?thesis by simp
  qed
  have after: "sponsor_lookup e2 now2 ?c1 req2 = Passed buffer2 vtx2
      \<and> fst (sponsor e2 cfg2 now2 ?c1 req2) =
        fst (sponsor e2 cfg2 now2 (c\<lparr>entries := (entries c)(?k := None)\<rparr>) req2)"
    if "now1 + ttl c \<le> now2"
  proof -
    have miss: "\<not> cache_get ?c1 now2 (cache_key e2 (message vtx2))"
      using that by (simp add: k2 c1 cache_get_after_set)
    have miss': "\<not> cache_get (c\<lparr>entries := (entries c)(?k := None)\<rparr>) now2 (cache_key e2 (message vtx2))"
      by (simp add: k2 cache_get_def)
    have "fst (sponsor e2 cfg2 now2 ?c1 req2) =
        fst (sponsor e2 cfg2 now2 (c\<lparr>entries := (entries c)(?k := None)\<rparr>) req2)"
      using miss miss' by (simp add: sponsor_decoded [OF assms(1)] sponsor_try_def Let_def)
    with sponsor_lookup_passes [OF assms(1) miss] show ?thesis by simp
  qed
  from within after show ?thesis by blast
qed

theorem lock_excludes_later_lookups_witness:
  "fst (sponsor_resume (sample_env (sample_v0 1 [1] [null_signature]) no_legacy)
         (sample_config 2 None) 10 empty_cache sample_request [3] (sample_v0 1 [1] [null_signature])) =
     (Responded (ok_response (replicate 64 CHR ''z'')),
      [CacheGet ''transaction/zzz'', CacheSet ''transaction/zzz'', IsBlockhashValid ''hash'',
       Sign True, Serialize True,
       Simulate (SimulatedTransaction (sample_v0 1 [1] [service_signature])) (Inr None),
       Submit [5, 5] True])
   \<and> (10::nat) \<le> 11 \<and> 12 < 10 + ttl empty_cache \<and> 10 + ttl empty_cache \<le> 15
   \<and> sponsor (sample_env (sample_v0 1 [1] [null_signature]) no_legacy) (sample_config 2 None) 12
       (resume_all
          (snd (sponsor_resume (sample_env (sample_v0 1 [1] [null_signature]) no_legacy)
             (sample_config 2 None) 10 empty_cache sample_request [3]
             (sample_v0 1 [1] [null_signature])))
          [(sample_env (sample_v0 1 [2, 2] [null_signature]) no_legacy, sample_config 2 None, 11,
            sample_request, [3], sample_v0 1 [2, 2] [null_signature])])
       sample_request =
     ((Responded (error_response ''duplicate transaction''), [CacheGet ''transaction/zzz'']),
      resume_all
          (snd (sponsor_resume (sample_env (sample_v0 1 [1] [null_signature]) no_legacy)
             (sample_config 2 None) 10 empty_cache sample_request [3]
             (sample_v0 1 [1] [null_signature])))
          [(sample_env (sample_v0 1 [2, 2] [null_signature]) no_legacy, sample_config 2 None, 11,
            sample_request, [3], sample_v0 1 [2, 2] [null_signature])])
   \<and> sponsor_lookup (sample_env (sample_v0 1 [1] [null_signature]) no_legacy) 15
       (snd (sponsor_resume (sample_env (sample_v0 1 [1] [null_signature]) no_legacy)
          (sample_config 2 None) 10 empty_cache sample_request [3]
          (sample_v0 1 [1] [null_signature])))
       sample_request = Passed [3] (sample_v0 1 [1] [null_signature])
   \<and> fst (sponsor (sample_env (sample_v0 1 [1] [null_signature]) no_legacy) (sample_config 2 None) 15
       (snd (sponsor_resume (sample_env (sample_v0 1 [1] [null_signature]) no_legacy)
          (sample_config 2 None) 10 empty_cache sample_request [3]
          (sample_v0 1 [1] [null_signature])))
       sample_request) =
     (Responded (ok_response (replicate 64 CHR ''z'')),
      [CacheGet ''transaction/zzz'', CacheSet ''transaction/zzz'', IsBlockhashValid ''hash'',
       Sign True, Serialize True,
       Simulate (SimulatedTransaction (sample_v0 1 [1] [service_signature])) (Inr None),
       Submit [5, 5] True])"
proof -
  let ?v = "sample_v0 1 [1] [null_signature]"
  let ?e = "sample_env ?v no_legacy"
  let ?cfg = "sample_config 2 None"
  let ?mid = "[(sample_env (sample_v0 1 [2, 2] [null_signature]) no_legacy, ?cfg, 11::nat,
     sample_request, [3::byte], sample_v0 1 [2, 2] [null_signature])]"
  let ?c1 = "snd (sponsor_resume ?e ?cfg 10 empty_cache sample_request [3] ?v)"
  let ?ok = "(Responded (ok_response (replicate 64 CHR ''z'')),
      [CacheGet ''transaction/zzz'', CacheSet ''transaction/zzz'', IsBlockhashValid ''hash'',
       Sign True, Serialize True,
       Simulate (SimulatedTransaction (sample_v0 1 [1] [service_signature])) (Inr None),
       Submit [5, 5] True])"
  have d: "decoded ?e sample_request = Some ([3], ?v)"
    by (simp add: decoded_def sample_defs)
  have k: "cache_key ?e (message ?v) = ''transaction/zzz''"
    by (simp add: cache_key_def sample_defs)
  have mid: "\<forall>(e, cfg, now, req, buffer, vtx) \<in> set ?mid. (10::nat) \<le> now" by simp
  have r: "fst (sponsor_resume ?e ?cfg 10 empty_cache sample_request [3] ?v) = ?ok"
    by (simp add: sponsor_resume_def sample_defs handler_defs list_all_replicate)
  have fresh: "fst (sponsor ?e ?cfg 15
      (empty_cache\<lparr>entries := (entries empty_cache)(cache_key ?e (message ?v) := None)\<rparr>)
      sample_request) = ?ok"
    by (simp add: sample_defs handler_defs list_all_replicate)
  have le: "(10::nat) \<le> 11" by simp
  have w1: "(12::nat) < 10 + ttl empty_cache" and w2: "10 + ttl empty_cache \<le> (15::nat)"
    by (simp_all add: empty_cache_def)
  note inst = lock_excludes_later_lookups [OF d refl refl refl mid,
      where ?cfg1.0 = ?cfg and ?cfg2.0 = ?cfg and c = empty_cache and ?req1.0 = sample_request
        and ?buffer1.0 = "[3]"]
  from inst [where ?now2.0 = 12] w1
  have "sponsor ?e ?cfg 12 (resume_all ?c1 ?mid) sample_request =
      ((Responded (error_response ''duplicate transaction''), [CacheGet (cache_key ?e (message ?v))]),
       resume_all ?c1 ?mid)"
    by blast
  then have a: "sponsor ?e ?cfg 12 (resume_all ?c1 ?mid) sample_request =
      ((Responded (error_response ''duplicate transaction''), [CacheGet ''transaction/zzz'']),
       resume_all ?c1 ?mid)"
    by (simp only: k)
  from inst [where ?now2.0 = 15] w2
  have b: "sponsor_lookup ?e 15 ?c1 sample_request = Passed [3] ?v"
    and "fst (sponsor ?e ?cfg 15 ?c1 sample_request) =
      fst (sponsor ?e ?cfg 15
        (empty_cache\<lparr>entries := (entries empty_cache)(cache_key ?e (message ?v) := None)\<rparr>)
        sample_request)"
    by blast+
  with fresh have b': "fst (sponsor ?e ?cfg 15 ?c1 sample_request) = ?ok"
    by (simp only:)
  from r le w1 w2 a b b' show ?thesis by (simp only: simp_thms)
qed

text \<open>
  C2 as stated fails for requests that overlap: the lookup (line 47) and the set (line 50)
  are two awaits and nothing joins them into one check-and-set. Two requests with the same
  message bytes whose lookups both come before either set both pass, and both are signed,
  simulated and submitted within one TTL window.
\<close>

theorem overlapping_requests_counterexample:
  "sponsor_lookup (sample_env (sample_v0 1 [1] [null_signature]) no_legacy) 10 empty_cache
     sample_request = Passed [3] (sample_v0 1 [1] [null_signature])
   \<and> sponsor_lookup (sample_env (sample_v0 1 [1] [null_signature]) no_legacy) 11 empty_cache
     sample_request = Passed [3] (sample_v0 1 [1] [null_signature])
   \<and> fst (sponsor_resume (sample_env (sample_v0 1 [1] [null_signature]) no_legacy)
         (sample_config 2 None) 12 empty_cache sample_request [3] (sample_v0 1 [1] [null_signature])) =
     (Responded (ok_response (replicate 64 CHR ''z'')),
      [CacheGet ''transaction/zzz'', CacheSet ''transaction/zzz'', IsBlockhashValid ''hash'',
       Sign True, Serialize True,
       Simulate (SimulatedTransaction (sample_v0 1 [1] [service_signature])) (Inr None),
       Submit [5, 5] True])
   \<and> 13 < 12 + ttl empty_cache
   \<and> fst (sponsor_resume (sample_env (sample_v0 1 [1] [null_signature]) no_legacy)
         (sample_config 2 None) 13
         (snd (sponsor_resume (sample_env (sample_v0 1 [1] [null_signature]) no_legacy)
            (sample_config 2 None) 12 empty_cache sample_request [3]
            (sample_v0 1 [1] [null_signature])))
         sample_request [3] (sample_v0 1 [1] [null_signature])) =
     (Responded (ok_response (replicate 64 CHR ''z'')),
      [CacheGet ''transaction/zzz'', CacheSet ''transaction/zzz'', IsBlockhashValid ''hash'',
       Sign True, Serialize True,
       Simulate (SimulatedTransaction (sample_v0 1 [1] [service_signature])) (Inr None),
       Submit [5, 5] True])"
  by (simp add: sponsor_lookup_def sponsor_resume_def sample_defs handler_defs list_all_replicate)

subsection \<open>Outcomes and events of a chain\<close>

lemma fst_catch_all: "fst (catch_all m) =
   (case fst m of Inr r \<Rightarrow> Responded r | Inl ex \<Rightarrow> Responded (error_response (catch_message ex)))"
  by (cases m) (auto simp: catch_all_def split: sum.splits)

lemma sponsor_outcome:
  assumes "decoded e req = Some (buffer, vtx)"
  shows "fst (fst (sponsor e cfg now c req)) =
     (if cache_get c now (cache_key e (message vtx))
      then Responded (error_response ''duplicate transaction'')
      else fst (catch_all (if version (message vtx) = Legacy then sponsor_legacy e cfg req buffer
                           else sponsor_v0 e cfg req vtx)))"
  by (auto simp add: sponsor_decoded [OF assms] sponsor_try_def Let_def fst_catch_all io_simps
        io_throw_def catch_message_def split: sum.splits)

lemma io_bind_pair:
  "io_bind (r, t) f = (case r of Inl ex \<Rightarrow> (Inl ex, t) | Inr x \<Rightarrow> (fst (f x), t @ snd (f x)))"
  by (simp add: io_bind_def split: prod.splits sum.splits)

lemmas chain_defs = simulate_v0_def simulateRawTransaction_def dispatch_def
  isReturnedSignatureAllowed_def encode_signature_def versioned_signature_def io_bind_pair
  io_call_def io_lift_def io_throw_def io_return_def returned_def


subsection \<open>Simulation before submission\<close>

lemma cosign_v0_guards: "simulation_guards e (cosigned_v0 e vtx) (cosign_v0 e cfg req vtx)"
  unfolding simulation_guards_def
  by (auto simp: cosign_v0_def cosigned_v0_def simulation_result_def chain_defs
        split: sum.splits option.splits list.splits if_splits ReturnSignatureConfigField.splits)

lemma cosign_legacy_guards:
  "simulation_guards e (cosigned_legacy e legacyTx) (cosign_legacy e cfg req legacyTx)"
  unfolding simulation_guards_def
  by (auto simp: cosign_legacy_def cosigned_legacy_def simulation_result_def chain_defs
        split: sum.splits option.splits list.splits if_splits ReturnSignatureConfigField.splits)

lemma simulation_guards_blockhash:
  "simulation_guards e art m \<Longrightarrow> simulation_guards e art (fst m, IsBlockhashValid h # snd m)"
  unfolding simulation_guards_def by simp

lemma simulation_guards_thrown:
  "simulation_guards e art (Inl ex, [])"
  "simulation_guards e art (Inl ex, [IsBlockhashValid h])"
  unfolding simulation_guards_def by simp_all

lemma sponsor_v0_guards:
  "simulation_guards e (cosigned_v0 e vtx) (sponsor_v0 e cfg req vtx)"
  by (simp add: sponsor_v0_def io_simps io_throw_def simulation_guards_thrown
        simulation_guards_blockhash cosign_v0_guards split: list.splits sum.splits)

lemma sponsor_legacy_guards:
  "simulation_guards e
     (case transaction_from e buffer of Inl _ \<Rightarrow> None | Inr legacyTx \<Rightarrow> cosigned_legacy e legacyTx)
     (sponsor_legacy e cfg req buffer)"
  by (simp add: sponsor_legacy_def io_simps io_throw_def simulation_guards_thrown
        simulation_guards_blockhash cosign_legacy_guards split: list.splits sum.splits option.splits)

lemma chain_guards:
  "simulation_guards e (cosigned e buffer vtx)
     (if version (message vtx) = Legacy then sponsor_legacy e cfg req buffer
      else sponsor_v0 e cfg req vtx)"
  using sponsor_legacy_guards [of e buffer cfg req] sponsor_v0_guards [of e vtx cfg req]
  by (cases "version (message vtx)") (simp_all add: cosigned_def)

text \<open>
  C3: in every request, whatever is dry-run is the co-signed transaction of the request
  (for v0 the signed transaction object, for the legacy format its serialized bytes) and
  the report is that of the connection; whatever is submitted are the serialized bytes of
  the co-signed transaction, after a dry-run of it that reported no error; once the
  transaction is signed and serialized it is dry-run, whatever the configuration; and when
  the dry-run reports an error the request is answered
  \<open>simulation failed: <details>\<close> and nothing is submitted.
\<close>

theorem simulation_before_submission:
  "(\<forall>x r. Simulate x r \<in> set (snd (fst (sponsor e cfg now c req))) \<longrightarrow>
        (\<exists>buffer vtx raw. decoded e req = Some (buffer, vtx)
           \<and> cosigned e buffer vtx = Some (x, raw) \<and> r = simulation_result e x))
   \<and> (\<forall>raw b. Submit raw b \<in> set (snd (fst (sponsor e cfg now c req))) \<longrightarrow>
        (\<exists>buffer vtx x. decoded e req = Some (buffer, vtx)
           \<and> cosigned e buffer vtx = Some (x, raw)
           \<and> Simulate x (Inr None)
                \<in> set (takeWhile (\<lambda>ev. ev \<noteq> Submit raw b) (snd (fst (sponsor e cfg now c req))))))
   \<and> (Serialize True \<in> set (snd (fst (sponsor e cfg now c req))) \<longrightarrow>
        (\<exists>buffer vtx x raw. decoded e req = Some (buffer, vtx)
           \<and> cosigned e buffer vtx = Some (x, raw)
           \<and> Simulate x (simulation_result e x) \<in> set (snd (fst (sponsor e cfg now c req)))))
   \<and> (\<forall>x d. Simulate x (Inr (Some d)) \<in> set (snd (fst (sponsor e cfg now c req))) \<longrightarrow>
        fst (fst (sponsor e cfg now c req)) =
          Responded (error_response (''simulation failed: '' @ d))
        \<and> (\<forall>raw b. Submit raw b \<notin> set (snd (fst (sponsor e cfg now c req)))))"
proof (cases "decoded e req")
  case None
  then show ?thesis by (simp add: sponsor_undecoded_events)
next
  case (Some a)
  then obtain buffer vtx where d: "decoded e req = Some (buffer, vtx)" by (cases a) auto
  let ?m = "if version (message vtx) = Legacy then sponsor_legacy e cfg req buffer
            else sponsor_v0 e cfg req vtx"
  have g: "simulation_guards e (cosigned e buffer vtx) ?m"
    by (rule chain_guards)
  show ?thesis
  proof (cases "cache_get c now (cache_key e (message vtx))")
    case True
    then show ?thesis by (simp add: sponsor_events [OF d])
  next
    case False
    have ev: "snd (fst (sponsor e cfg now c req)) =
        CacheGet (cache_key e (message vtx)) # CacheSet (cache_key e (message vtx)) # snd ?m"
      using False by (simp add: sponsor_events [OF d])
    have out: "fst (fst (sponsor e cfg now c req)) = fst (catch_all ?m)"
      using False by (simp add: sponsor_outcome [OF d])
    from g show ?thesis
      unfolding ev out simulation_guards_def
      by (simp add: fst_catch_all catch_message_def d)
  qed
qed

theorem simulation_before_submission_witness:
  "Submit [5, 5] True \<in> set (snd (fst (sponsor
       (sample_env (sample_v0 1 [1] [null_signature]) no_legacy)
       (sample_config 2 None) 10 empty_cache sample_request)))
   \<and> cosigned (sample_env (sample_v0 1 [1] [null_signature]) no_legacy) [3]
        (sample_v0 1 [1] [null_signature]) =
       Some (SimulatedTransaction (sample_v0 1 [1] [service_signature]), [5, 5])
   \<and> Simulate (SimulatedTransaction (sample_v0 1 [1] [service_signature])) (Inr None)
        \<in> set (takeWhile (\<lambda>ev. ev \<noteq> Submit [5, 5] True)
            (snd (fst (sponsor (sample_env (sample_v0 1 [1] [null_signature]) no_legacy)
               (sample_config 2 None) 10 empty_cache sample_request))))
   \<and> Serialize True \<in> set (snd (fst (sponsor
       (sample_env (sample_v0 1 [1] [null_signature]) no_legacy)
       (sample_config 2 None) 10 empty_cache sample_request)))
   \<and> Simulate (SimulatedTransaction (sample_v0 1 [1] [service_signature]))
        (Inr (Some account_not_found)) \<in> set (snd (fst (sponsor
       ((sample_env (sample_v0 1 [1] [null_signature]) no_legacy)
          \<lparr>simulateTransaction := \<lambda>t. Inr (Some account_not_found)\<rparr>)
       (sample_config 2 None) 10 empty_cache sample_request)))
   \<and> fst (fst (sponsor
       ((sample_env (sample_v0 1 [1] [null_signature]) no_legacy)
          \<lparr>simulateTransaction := \<lambda>t. Inr (Some account_not_found)\<rparr>)
       (sample_config 2 None) 10 empty_cache sample_request)) =
      Responded (error_response (''simulation failed: '' @ account_not_found))
   \<and> (\<forall>raw b. Submit raw b \<notin> set (snd (fst (sponsor
       ((sample_env (sample_v0 1 [1] [null_signature]) no_legacy)
          \<lparr>simulateTransaction := \<lambda>t. Inr (Some account_not_found)\<rparr>)
       (sample_config 2 None) 10 empty_cache sample_request))))
   \<and> Simulate (SimulatedRaw [5, 5]) (Inr (Some account_not_found)) \<in> set (snd (fst (sponsor
       ((sample_env (sample_wire_legacy [1] [null_signature])
           (sample_legacy [1] [\<lparr>signature = None, publicKey = Some [1]\<rparr>]))
          \<lparr>simulateRaw := \<lambda>b. Inr (Some account_not_found)\<rparr>)
       (sample_config 2 None) 10 empty_cache sample_request)))
   \<and> fst (fst (sponsor
       ((sample_env (sample_wire_legacy [1] [null_signature])
           (sample_legacy [1] [\<lparr>signature = None, publicKey = Some [1]\<rparr>]))
          \<lparr>simulateRaw := \<lambda>b. Inr (Some account_not_found)\<rparr>)
       (sample_config 2 None) 10 empty_cache sample_request)) =
      Responded (error_response (''simulation failed: '' @ account_not_found))"
proof -
  let ?cfg = "sample_config 2 None"
  let ?v = "sample_v0 1 [1] [null_signature]"
  let ?s = "sample_v0 1 [1] [service_signature]"
  let ?e1 = "sample_env ?v no_legacy"
  let ?e2 = "?e1\<lparr>simulateTransaction := \<lambda>t. Inr (Some account_not_found)\<rparr>"
  let ?e3 = "(sample_env (sample_wire_legacy [1] [null_signature])
           (sample_legacy [1] [\<lparr>signature = None, publicKey = Some [1]\<rparr>]))
          \<lparr>simulateRaw := \<lambda>b. Inr (Some account_not_found)\<rparr>"
  let ?t1 = "snd (fst (sponsor ?e1 ?cfg 10 empty_cache sample_request))"
  have d1: "decoded ?e1 sample_request = Some ([3], ?v)"
    by (simp add: decoded_def sample_defs)
  have c1: "cosigned ?e1 [3] ?v = Some (SimulatedTransaction ?s, [5, 5])"
    by (simp add: cosigned_def cosigned_v0_def sample_defs)
  have s1: "Submit [5, 5] True \<in> set ?t1"
    and s2: "Serialize True \<in> set ?t1"
    by (simp_all add: sample_defs handler_defs list_all_replicate)
  have s3: "Simulate (SimulatedTransaction ?s) (Inr (Some account_not_found))
      \<in> set (snd (fst (sponsor ?e2 ?cfg 10 empty_cache sample_request)))"
    by (simp add: sample_defs handler_defs list_all_replicate)
  have s4: "Simulate (SimulatedRaw [5, 5]) (Inr (Some account_not_found))
      \<in> set (snd (fst (sponsor ?e3 ?cfg 10 empty_cache sample_request)))"
    by (simp add: sample_defs handler_defs list_all_replicate)
  note t1 = simulation_before_submission [of ?e1 ?cfg 10 empty_cache sample_request]
  note t2 = simulation_before_submission [of ?e2 ?cfg 10 empty_cache sample_request]
  note t3 = simulation_before_submission [of ?e3 ?cfg 10 empty_cache sample_request]
  from t1 s1 obtain buffer vtx x where "decoded ?e1 sample_request = Some (buffer, vtx)"
    "cosigned ?e1 buffer vtx = Some (x, [5, 5])"
    "Simulate x (Inr None) \<in> set (takeWhile (\<lambda>ev. ev \<noteq> Submit [5, 5] True) ?t1)"
    by blast
  with d1 c1 have r1: "Simulate (SimulatedTransaction ?s) (Inr None)
      \<in> set (takeWhile (\<lambda>ev. ev \<noteq> Submit [5, 5] True) ?t1)"
    by simp
  from t2 s3 have r3: "fst (fst (sponsor ?e2 ?cfg 10 empty_cache sample_request)) =
      Responded (error_response (''simulation failed: '' @ account_not_found))"
    and r4: "\<forall>raw b. Submit raw b \<notin> set (snd (fst (sponsor ?e2 ?cfg 10 empty_cache sample_request)))"
    by blast+
  from t3 s4 have r5: "fst (fst (sponsor ?e3 ?cfg 10 empty_cache sample_request)) =
      Responded (error_response (''simulation failed: '' @ account_not_found))"
    by blast
  from s1 c1 r1 s2 s3 r3 r4 s4 r5 show ?thesis by (simp only: simp_thms)
qed

subsection \<open>Returning the signature\<close>

lemma cosign_v0_allow_all:
  assumes "returnSignature cfg = Some AllowAll"
  shows "(\<forall>raw b. Submit raw b \<notin> set (snd (cosign_v0 e cfg req vtx)))
     \<and> (\<forall>b. AntiSpamQuery b \<notin> set (snd (cosign_v0 e cfg req vtx)))
     \<and> ((\<exists>x. Simulate x (Inr None) \<in> set (snd (cosign_v0 e cfg req vtx))) \<longrightarrow>
          (\<exists>signedTx. sign e vtx = Inr signedTx
             \<and> fst (catch_all (cosign_v0 e cfg req vtx)) =
                 signature_outcome e (versioned_signature signedTx)))"
  using assms
  by (auto simp: cosign_v0_def chain_defs fst_catch_all catch_message_def signature_outcome_def
        split: sum.splits option.splits if_splits)

lemma cosign_legacy_allow_all:
  assumes "returnSignature cfg = Some AllowAll"
  shows "(\<forall>raw b. Submit raw b \<notin> set (snd (cosign_legacy e cfg req legacyTx)))
     \<and> (\<forall>b. AntiSpamQuery b \<notin> set (snd (cosign_legacy e cfg req legacyTx)))
     \<and> ((\<exists>x. Simulate x (Inr None) \<in> set (snd (cosign_legacy e cfg req legacyTx))) \<longrightarrow>
          (\<exists>signedTx. partialSign e legacyTx = Inr signedTx
             \<and> fst (catch_all (cosign_legacy e cfg req legacyTx)) =
                 signature_outcome e (legacy_signature signedTx)))"
  using assms
  by (auto simp: cosign_legacy_def chain_defs fst_catch_all catch_message_def signature_outcome_def
        split: sum.splits option.splits if_splits)

lemma sponsor_v0_allow_all:
  assumes "returnSignature cfg = Some AllowAll"
  shows "(\<forall>raw b. Submit raw b \<notin> set (snd (sponsor_v0 e cfg req vtx)))
     \<and> (\<forall>b. AntiSpamQuery b \<notin> set (snd (sponsor_v0 e cfg req vtx)))
     \<and> ((\<exists>x. Simulate x (Inr None) \<in> set (snd (sponsor_v0 e cfg req vtx))) \<longrightarrow>
          (\<exists>signedTx. sign e vtx = Inr signedTx
             \<and> fst (catch_all (sponsor_v0 e cfg req vtx)) =
                 signature_outcome e (versioned_signature signedTx)))"
  using cosign_v0_allow_all [OF assms, of e req vtx]
  by (simp add: sponsor_v0_def io_simps io_throw_def fst_catch_all split: list.splits sum.splits)

lemma sponsor_legacy_allow_all:
  assumes "returnSignature cfg = Some AllowAll"
  shows "(\<forall>raw b. Submit raw b \<notin> set (snd (sponsor_legacy e cfg req buffer)))
     \<and> (\<forall>b. AntiSpamQuery b \<notin> set (snd (sponsor_legacy e cfg req buffer)))
     \<and> ((\<exists>x. Simulate x (Inr None) \<in> set (snd (sponsor_legacy e cfg req buffer))) \<longrightarrow>
          (\<exists>legacyTx signedTx. transaction_from e buffer = Inr legacyTx
             \<and> partialSign e legacyTx = Inr signedTx
             \<and> fst (catch_all (sponsor_legacy e cfg req buffer)) =
                 signature_outcome e (legacy_signature signedTx)))"
proof (cases "transaction_from e buffer")
  case (Inl ex)
  then show ?thesis by (simp add: sponsor_legacy_def io_simps)
next
  case (Inr legacyTx)
  with cosign_legacy_allow_all [OF assms, of e req legacyTx]
  show ?thesis
    by (simp add: sponsor_legacy_def io_simps io_throw_def fst_catch_all split: list.splits sum.splits option.splits)
qed

text \<open>
  C7, as amended: when \<open>returnSignature\<close> is the \<open>allowAll\<close> variant, no request
  submits anything or asks the anti-spam collaborator; and a request whose simulation
  reported no error is answered with the identifier of the signature the service placed
  in the first slot of the signed transaction, that is with status 200 and the two fields
  \<open>status\<close> and \<open>signature\<close> (or with the TypeError of \<open>base58.encode\<close>, should the
  signed transaction have no such signature). The signed bytes are not part of the answer.
\<close>

theorem allow_all_returns_signature:
  assumes "returnSignature cfg = Some AllowAll"
  shows "(\<forall>raw b. Submit raw b \<notin> set (snd (fst (sponsor e cfg now c req))))
     \<and> (\<forall>b. AntiSpamQuery b \<notin> set (snd (fst (sponsor e cfg now c req))))
     \<and> ((\<exists>x. Simulate x (Inr None) \<in> set (snd (fst (sponsor e cfg now c req)))) \<longrightarrow>
          (\<exists>buffer vtx. decoded e req = Some (buffer, vtx)
             \<and> (version (message vtx) = V0 \<longrightarrow>
                  (\<exists>signedTx. sign e vtx = Inr signedTx
                     \<and> fst (fst (sponsor e cfg now c req)) =
                         signature_outcome e (versioned_signature signedTx)))
             \<and> (version (message vtx) = Legacy \<longrightarrow>
                  (\<exists>legacyTx signedTx. transaction_from e buffer = Inr legacyTx
                     \<and> partialSign e legacyTx = Inr signedTx
                     \<and> fst (fst (sponsor e cfg now c req)) =
                         signature_outcome e (legacy_signature signedTx)))))"
proof (cases "decoded e req")
  case None
  then show ?thesis by (simp add: sponsor_undecoded_events)
next
  case (Some a)
  then obtain buffer vtx where d: "decoded e req = Some (buffer, vtx)" by (cases a) auto
  show ?thesis
  proof (cases "cache_get c now (cache_key e (message vtx))")
    case True
    then show ?thesis by (simp add: sponsor_events [OF d])
  next
    case False
    show ?thesis
    proof (cases "version (message vtx)")
      case Legacy
      have ev: "snd (fst (sponsor e cfg now c req)) =
          CacheGet (cache_key e (message vtx)) # CacheSet (cache_key e (message vtx))
            # snd (sponsor_legacy e cfg req buffer)"
        using False Legacy by (simp add: sponsor_events [OF d])
      have out: "fst (fst (sponsor e cfg now c req)) = fst (catch_all (sponsor_legacy e cfg req buffer))"
        using False Legacy by (simp add: sponsor_outcome [OF d])
      from sponsor_legacy_allow_all [OF assms, of e req buffer] show ?thesis
        unfolding ev out using d Legacy by simp
    next
      case V0
      have ev: "snd (fst (sponsor e cfg now c req)) =
          CacheGet (cache_key e (message vtx)) # CacheSet (cache_key e (message vtx))
            # snd (sponsor_v0 e cfg req vtx)"
        using False V0 by (simp add: sponsor_events [OF d])
      have out: "fst (fst (sponsor e cfg now c req)) = fst (catch_all (sponsor_v0 e cfg req vtx))"
        using False V0 by (simp add: sponsor_outcome [OF d])
      from sponsor_v0_allow_all [OF assms, of e req vtx] show ?thesis
        unfolding ev out using d V0 by simp
    qed
  qed
qed

theorem allow_all_returns_signature_witness:
  "returnSignature (sample_config 2 (Some AllowAll)) = Some AllowAll
   \<and> Simulate (SimulatedTransaction (sample_v0 1 [1] [service_signature])) (Inr None)
        \<in> set (snd (fst (sponsor
         (sample_env (sample_v0 1 [1] [null_signature]) no_legacy)
         (sample_config 2 (Some AllowAll)) 10 empty_cache sample_request)))
   \<and> (\<forall>raw b. Submit raw b \<notin> set (snd (fst (sponsor
         (sample_env (sample_v0 1 [1] [null_signature]) no_legacy)
         (sample_config 2 (Some AllowAll)) 10 empty_cache sample_request))))
   \<and> fst (fst (sponsor (sample_env (sample_v0 1 [1] [null_signature]) no_legacy)
         (sample_config 2 (Some AllowAll)) 10 empty_cache sample_request)) =
       Responded (ok_response (base58_encode
         (sample_env (sample_v0 1 [1] [null_signature]) no_legacy) service_signature))
   \<and> Simulate (SimulatedRaw [5, 5]) (Inr None) \<in> set (snd (fst (sponsor
         (sample_env (sample_wire_legacy [1] [null_signature])
            (sample_legacy [1] [\<lparr>signature = None, publicKey = Some [1]\<rparr>]))
         (sample_config 2 (Some AllowAll)) 10 empty_cache sample_request)))
   \<and> fst (fst (sponsor
         (sample_env (sample_wire_legacy [1] [null_signature])
            (sample_legacy [1] [\<lparr>signature = None, publicKey = Some [1]\<rparr>]))
         (sample_config 2 (Some AllowAll)) 10 empty_cache sample_request)) =
       Responded (ok_response (base58_encode
         (sample_env (sample_wire_legacy [1] [null_signature])
            (sample_legacy [1] [\<lparr>signature = None, publicKey = Some [1]\<rparr>])) service_signature))"
proof -
  let ?cfg = "sample_config 2 (Some AllowAll)"
  let ?v = "sample_v0 1 [1] [null_signature]"
  let ?e = "sample_env ?v no_legacy"
  let ?w = "sample_wire_legacy [1] [null_signature]"
  let ?l = "sample_legacy [1] [\<lparr>signature = None, publicKey = Some [1]\<rparr>]"
  let ?f = "sample_env ?w ?l"
  have a: "returnSignature ?cfg = Some AllowAll" by (simp add: sample_config_def)
  have s1: "Simulate (SimulatedTransaction (sample_v0 1 [1] [service_signature])) (Inr None)
      \<in> set (snd (fst (sponsor ?e ?cfg 10 empty_cache sample_request)))"
    by (simp add: sample_defs handler_defs list_all_replicate)
  then have x1: "\<exists>x. Simulate x (Inr None)
      \<in> set (snd (fst (sponsor ?e ?cfg 10 empty_cache sample_request)))"
    by blast
  have d1: "decoded ?e sample_request = Some ([3], ?v)" "version (message ?v) = V0"
    "sign ?e ?v = Inr (?v\<lparr>signatures := service_signature # tl (signatures ?v)\<rparr>)"
    by (simp_all add: decoded_def sample_defs)
  have o1: "signature_outcome ?e (versioned_signature (?v\<lparr>signatures := service_signature # tl (signatures ?v)\<rparr>))
      = Responded (ok_response (base58_encode ?e service_signature))"
    by (simp add: signature_outcome_def versioned_signature_def)
  from allow_all_returns_signature [OF a, of ?e 10 empty_cache sample_request] x1 d1
  have r1: "fst (fst (sponsor ?e ?cfg 10 empty_cache sample_request)) =
      signature_outcome ?e (versioned_signature (?v\<lparr>signatures := service_signature # tl (signatures ?v)\<rparr>))"
    and n1: "\<forall>raw b. Submit raw b \<notin> set (snd (fst (sponsor ?e ?cfg 10 empty_cache sample_request)))"
    by auto
  have s2: "Simulate (SimulatedRaw [5, 5]) (Inr None)
      \<in> set (snd (fst (sponsor ?f ?cfg 10 empty_cache sample_request)))"
    by (simp add: sample_defs handler_defs list_all_replicate)
  then have x2: "\<exists>x. Simulate x (Inr None)
      \<in> set (snd (fst (sponsor ?f ?cfg 10 empty_cache sample_request)))"
    by blast
  have d2: "decoded ?f sample_request = Some ([3], ?w)" "version (message ?w) = Legacy"
    "transaction_from ?f [3] = Inr ?l"
    "partialSign ?f ?l = Inr (sample_legacy [1] [\<lparr>signature = Some service_signature, publicKey = Some [1]\<rparr>])"
    by (simp_all add: decoded_def sample_defs)
  have o2: "signature_outcome ?f (legacy_signature (sample_legacy [1] [\<lparr>signature = Some service_signature, publicKey = Some [1]\<rparr>]))
      = Responded (ok_response (base58_encode ?f service_signature))"
    by (simp add: signature_outcome_def legacy_signature_def sample_legacy_def)
  from allow_all_returns_signature [OF a, of ?f 10 empty_cache sample_request] x2 d2
  have r2: "fst (fst (sponsor ?f ?cfg 10 empty_cache sample_request)) =
      signature_outcome ?f (legacy_signature (sample_legacy [1] [\<lparr>signature = Some service_signature, publicKey = Some [1]\<rparr>]))"
    by auto
  from a s1 n1 r1 o1 s2 r2 o2 show ?thesis by (simp only: simp_thms)
qed

text \<open>
  C7 as stated fails on the signed bytes: under \<open>allowAll\<close> a valid single-signer v0
  transaction is answered with the two fields \<open>status\<close> and \<open>signature\<close> only; the
  \<open>signature\<close> field is the text of the service's signature, and the serialized signed
  transaction (here the two bytes \<open>[5, 5]\<close>) is not sent.
\<close>

theorem allow_all_signed_bytes_counterexample:
  "returnSignature (sample_config 2 (Some AllowAll)) = Some AllowAll
   \<and> serialize_versioned (sample_env (sample_v0 1 [1] [null_signature]) no_legacy)
        (sample_v0 1 [1] [service_signature]) = Inr [5, 5]
   \<and> fst (sponsor (sample_env (sample_v0 1 [1] [null_signature]) no_legacy)
         (sample_config 2 (Some AllowAll)) 10 empty_cache sample_request) =
       (Responded (Response 200
          [(''status'', ''ok''),
           (''signature'', base58_encode (sample_env (sample_v0 1 [1] [null_signature]) no_legacy)
                             service_signature)]),
        [CacheGet ''transaction/zzz'', CacheSet ''transaction/zzz'', IsBlockhashValid ''hash'',
         Sign True, Serialize True,
         Simulate (SimulatedTransaction (sample_v0 1 [1] [service_signature])) (Inr None)])
   \<and> base58_encode (sample_env (sample_v0 1 [1] [null_signature]) no_legacy) service_signature
        \<noteq> base58_encode (sample_env (sample_v0 1 [1] [null_signature]) no_legacy) [5, 5]"
proof -
  have ne: "replicate 64 CHR ''z'' \<noteq> ''zz''"
  proof
    assume "replicate 64 CHR ''z'' = ''zz''"
    then have "length (replicate 64 CHR ''z'') = length ''zz''" by (rule arg_cong)
    then show False by simp
  qed
  then show ?thesis
    by (simp add: sample_defs handler_defs list_all_replicate)
qed

subsection \<open>The shape of the answers\<close>

text \<open>
  Every answer the handler writes is of one of its two shapes, status 200 with \<open>status\<close>
  and \<open>signature\<close> or status 400 with \<open>status\<close> and \<open>message\<close>; and the handler leaves
  without an answer exactly when \<open>base58.decode\<close> throws.
\<close>

lemma sponsor_base58_throws:
  assumes "body_transaction req = JSString serialized"
    and "base58_decode e serialized = Inl ex"
  shows "sponsor e cfg now c req = ((Unhandled ex, []), c)"
  using assms by (simp add: sponsor_def)

lemma sponsor_unhandled:
  assumes "fst (fst (sponsor e cfg now c req)) = Unhandled ex"
  shows "\<exists>serialized. body_transaction req = JSString serialized
           \<and> base58_decode e serialized = Inl ex"
  using assms
  by (auto simp: sponsor_def fst_catch_all split: js_value.splits sum.splits prod.splits)

lemma dispatch_two_fields:
  "fst (dispatch e cfg req rawTransaction sig) = Inr r \<Longrightarrow> two_fields r"
  by (auto simp: dispatch_def chain_defs two_fields_def
        split: option.splits sum.splits if_splits ReturnSignatureConfigField.splits)

lemma cosign_v0_two_fields:
  "fst (cosign_v0 e cfg req vtx) = Inr r \<Longrightarrow> two_fields r"
  by (auto simp: cosign_v0_def chain_defs two_fields_def
        split: option.splits sum.splits if_splits ReturnSignatureConfigField.splits list.splits)

lemma cosign_legacy_two_fields:
  "fst (cosign_legacy e cfg req legacyTx) = Inr r \<Longrightarrow> two_fields r"
  by (auto simp: cosign_legacy_def chain_defs two_fields_def
        split: option.splits sum.splits if_splits ReturnSignatureConfigField.splits list.splits)

lemma sponsor_v0_two_fields:
  "fst (sponsor_v0 e cfg req vtx) = Inr r \<Longrightarrow> two_fields r"
  using cosign_v0_two_fields [of e cfg req vtx r]
  by (auto simp: sponsor_v0_def io_simps io_throw_def split: list.splits sum.splits if_splits)

lemma sponsor_legacy_two_fields:
  "fst (sponsor_legacy e cfg req buffer) = Inr r \<Longrightarrow> two_fields r"
  using cosign_legacy_two_fields [of e cfg req _ r]
  by (auto simp: sponsor_legacy_def io_simps io_throw_def
        split: list.splits sum.splits if_splits option.splits)

lemma sponsor_two_fields:
  assumes "fst (fst (sponsor e cfg now c req)) = Responded r"
  shows "two_fields r"
proof (cases "decoded e req")
  case None
  with assms show ?thesis
    by (auto simp: sponsor_def decoded_def two_fields_def split: js_value.splits sum.splits)
next
  case (Some a)
  then obtain buffer vtx where d: "decoded e req = Some (buffer, vtx)" by (cases a) auto
  from assms sponsor_v0_two_fields [of e cfg req vtx] sponsor_legacy_two_fields [of e cfg req buffer]
  show ?thesis
    by (auto simp: sponsor_outcome [OF d] fst_catch_all two_fields_def
          split: if_splits sum.splits)
qed

text \<open>
  C8 at the input on which the code departs from it: the request carries the string
  \<open>0\<close>, which holds a character outside the base58 alphabet; \<open>base58.decode\<close> throws
  outside both \<open>try\<close> blocks (line 31), so the handler sends no answer of its own, where
  the claim promises status 400 with a message.
\<close>

theorem base58_failure_unhandled:
  "body_transaction \<lparr>body_transaction = JSString ''0'', challenge_token = None\<rparr> = JSString ''0''
   \<and> base58_decode (sample_env (sample_v0 1 [1] [null_signature]) no_legacy) ''0''
       = Inl (Error ''Non-base58 character'')
   \<and> sponsor (sample_env (sample_v0 1 [1] [null_signature]) no_legacy) (sample_config 2 None) 10
       empty_cache \<lparr>body_transaction = JSString ''0'', challenge_token = None\<rparr> =
     ((Unhandled (Error ''Non-base58 character''), []), empty_cache)"
  by (simp add: sponsor_def sample_env_def)

subsection \<open>Slot count of a v0 transaction\<close>

text \<open>
  Line 160: a v0 transaction is signed only if it has as many signature slots as its
  header declares, and one that has another number is rejected with
  \<open>signature count mismatch\<close> before anything is signed. The legacy chain makes no
  such comparison (lines 73-79 test that there is a slot and that there are at most
  \<open>maxSignatures\<close>); what it receives is whatever the two decoders of web3.js return.
\<close>

lemma v0_slot_count_checked:
  assumes "decoded e req = Some (buffer, vtx)" and "version (message vtx) = V0"
    and "Sign b \<in> set (snd (fst (sponsor e cfg now c req)))"
  shows "length (signatures vtx) = numRequiredSignatures (message vtx)"
proof -
  from sponsor_sign_cases [OF assms(1,3)] assms(2)
  have "Sign b \<in> set (snd (sponsor_v0 e cfg req vtx))" by simp
  then have "check_signatures_v0 e cfg vtx = Inr ()" by (rule sponsor_v0_sign)
  from check_signatures_v0_accepts [OF this] show ?thesis by blast
qed

lemma v0_slot_count_mismatch:
  assumes "v0_at_signature_checks e now c req = Some vtx"
    and "int (numRequiredSignatures (message vtx)) \<le> maxSignatures cfg"
    and "length (signatures vtx) \<noteq> numRequiredSignatures (message vtx)"
  shows "fst (sponsor e cfg now c req) =
     (Responded (error_response ''signature count mismatch''),
      admission_events e (message vtx) (recentBlockhash (message vtx)))"
proof -
  from assms(2,3)
  have "check_signatures_v0 e cfg vtx = Inl (Error ''signature count mismatch'')"
    by (simp add: check_signatures_v0_def)
  with assms(1) show ?thesis by (rule sponsor_v0_rejects)
qed

end
